theory Spec2Isabelle
  imports Complex_Main
begin

section \<open>Numbers and calendar dates of the host language\<close>

text \<open>
  The checkout code computes with JavaScript numbers. Prices, discounts and totals are
  modelled as exact rationals (the columns are \<open>DECIMAL(10,2)\<close>), quantities and stock
  levels as integers (\<open>INTEGER\<close> columns). \<open>NaN\<close> and the infinities have no
  counterpart in the model, so \<open>isFinite\<close> holds of every modelled number. The binary
  representation of a number is not modelled either: \<open>Number(x.toFixed(2))\<close>, which
  rounds the binary value of \<open>x\<close>, is a parameter of the environment
  (\<open>number_toFixed2\<close>, with the store below).
\<close>

definition isFinite :: "rat \<Rightarrow> bool" where
  "isFinite x = True"

text \<open>
  A \<open>Date\<close> is its time value, milliseconds since the epoch in UTC. The calendar
  functions follow the language standard: \<open>Day\<close>, \<open>TimeWithinDay\<close>, \<open>MakeDay\<close>,
  \<open>MakeDate\<close>, \<open>LocalTime\<close> and \<open>UTC\<close>. The offset of local time is the host's
  \<open>LocalTZA(t, isUTC)\<close>, a parameter \<open>z\<close>: \<open>z t True\<close> is the offset in force at
  the UTC time value \<open>t\<close>, \<open>z t False\<close> the one the host takes for the local time
  value \<open>t\<close>. A calendar date is (year, month 1..12, day of month) in the proleptic
  Gregorian calendar.
\<close>

type_synonym date = "int \<times> int \<times> int"

definition msPerDay :: int where
  "msPerDay = 86400000"

definition Day :: "int \<Rightarrow> int" where
  "Day t = t div msPerDay"

definition TimeWithinDay :: "int \<Rightarrow> int" where
  "TimeWithinDay t = t mod msPerDay"

definition days_from_civil :: "date \<Rightarrow> int" where
  "days_from_civil ymd =
     (case ymd of (y, m, d) \<Rightarrow>
        let y' = (if m \<le> 2 then y - 1 else y);
            era = y' div 400;
            yoe = y' - era * 400;
            doy = (153 * (if 2 < m then m - 3 else m + 9) + 2) div 5 + d - 1;
            doe = yoe * 365 + yoe div 4 - yoe div 100 + doy
        in era * 146097 + doe - 719468)"

definition civil_from_days :: "int \<Rightarrow> date" where
  "civil_from_days z =
     (let z' = z + 719468;
          era = z' div 146097;
          doe = z' - era * 146097;
          yoe = (doe - doe div 1460 + doe div 36524 - doe div 146096) div 365;
          y = yoe + era * 400;
          doy = doe - (365 * yoe + yoe div 4 - yoe div 100);
          mp = (5 * doy + 2) div 153;
          d = doy - (153 * mp + 2) div 5 + 1;
          m = (if mp < 10 then mp + 3 else mp - 9)
      in (if m \<le> 2 then y + 1 else y, m, d))"

text \<open>\<open>MakeDay(year, month, date)\<close> with a month counted from 0 that may overflow.\<close>

definition MakeDay :: "int \<Rightarrow> int \<Rightarrow> int \<Rightarrow> int" where
  "MakeDay year month dt =
     days_from_civil (year + month div 12, month mod 12 + 1, 1) + dt - 1"

definition MakeDate :: "int \<Rightarrow> int \<Rightarrow> int" where
  "MakeDate day time = day * msPerDay + time"

definition LocalTime :: "(int \<Rightarrow> bool \<Rightarrow> int) \<Rightarrow> int \<Rightarrow> int" where
  "LocalTime z t = t + z t True"

definition UTC :: "(int \<Rightarrow> bool \<Rightarrow> int) \<Rightarrow> int \<Rightarrow> int" where
  "UTC z t = t - z t False"

text \<open>\<open>d.getMonth()\<close>: the month of the local time, counted from 0.\<close>

definition getMonth :: "(int \<Rightarrow> bool \<Rightarrow> int) \<Rightarrow> int \<Rightarrow> int" where
  "getMonth z t = (case civil_from_days (Day (LocalTime z t)) of (y, m, d) \<Rightarrow> m - 1)"

text \<open>\<open>d.setMonth(month)\<close>: the new time value of \<open>d\<close>.\<close>

definition setMonth :: "(int \<Rightarrow> bool \<Rightarrow> int) \<Rightarrow> int \<Rightarrow> int \<Rightarrow> int" where
  "setMonth z t month =
     (let lt = LocalTime z t in
      case civil_from_days (Day lt) of (y, m, d) \<Rightarrow>
        UTC z (MakeDate (MakeDay y month d) (TimeWithinDay lt)))"

text \<open>\<open>d.toISOString().split("T")[0]\<close>: the calendar date of the time value in UTC.\<close>

definition toISODate :: "int \<Rightarrow> date" where
  "toISODate t = civil_from_days (Day t)"

text \<open>\<open>new Date("YYYY-MM-DD")\<close>: midnight UTC of that calendar date.\<close>

definition Date_parse :: "date \<Rightarrow> int" where
  "Date_parse ymd = days_from_civil ymd * msPerDay"

section \<open>The point of sale: cart and totals\<close>

text \<open>
  The repository holds two variants of the point-of-sale page: \<open>src/pages/PDV.tsx\<close>
  and a second file (\<open>unnamed/part_001\<close>). Both are modelled. Names that occur in
  both carry the suffix \<open>_pdv\<close> for the first and \<open>_p001\<close> for the second.
\<close>

record Product =
  p_id :: string
  p_code :: string
  p_name :: string
  p_size :: string
  p_color :: string
  sale_price :: rat
  stock_quantity :: int

text \<open>\<open>PDV.tsx\<close>: \<open>interface CartItem extends Product { quantity: number }\<close>.\<close>

record CartItem_pdv = Product +
  quantity_pdv :: int

text \<open>\<open>part_001\<close>: \<open>interface CartItem { product: Product; quantity: number }\<close>.\<close>

record CartItem_p001 =
  product_p001 :: Product
  quantity_p001 :: int

text \<open>
  The notifications shown to the user, named after what they report: "Estoque
  insuficiente", "Produto adicionado" or "Adicionado", "Carrinho vazio", "Usuario nao
  autenticado", "Venda finalizada", "Erro" (a failed store call), "Parcela marcada como
  paga".
\<close>

datatype toast =
  InsufficientStock | Added | EmptyCart | Unauthenticated | SaleCompleted | StoreError
  | MarkedPaid

text \<open>
  Every cart operation takes the cart and returns the notification it shows, if any,
  with the cart it leaves (\<open>setCart\<close> not called: the cart is returned as it was).
\<close>

definition addToCart :: "CartItem_pdv list \<Rightarrow> Product \<Rightarrow> toast option \<times> CartItem_pdv list" where
  "addToCart cart p =
     (case find (\<lambda>item. p_id item = p_id p) cart of
        Some existingItem \<Rightarrow>
          (if stock_quantity p \<le> quantity_pdv existingItem then (Some InsufficientStock, cart)
           else (Some Added,
                 map (\<lambda>item. if p_id item = p_id p
                              then item\<lparr>quantity_pdv := quantity_pdv item + 1\<rparr> else item) cart))
      | None \<Rightarrow>
          (Some Added,
           cart @ [\<lparr>p_id = p_id p, p_code = p_code p, p_name = p_name p, p_size = p_size p,
                    p_color = p_color p, sale_price = sale_price p,
                    stock_quantity = stock_quantity p, quantity_pdv = 1\<rparr>]))"

definition updateQuantity ::
  "Product list \<Rightarrow> CartItem_pdv list \<Rightarrow> string \<Rightarrow> int \<Rightarrow> toast option \<times> CartItem_pdv list" where
  "updateQuantity products cart productId newQuantity =
     (if newQuantity \<le> 0 then (None, filter (\<lambda>item. p_id item \<noteq> productId) cart)
      else
        (case find (\<lambda>p. p_id p = productId) products of
           Some p \<Rightarrow>
             (if stock_quantity p < newQuantity then (Some InsufficientStock, cart)
              else (None, map (\<lambda>item. if p_id item = productId
                                        then item\<lparr>quantity_pdv := newQuantity\<rparr> else item) cart))
         | None \<Rightarrow>
             (None, map (\<lambda>item. if p_id item = productId
                                 then item\<lparr>quantity_pdv := newQuantity\<rparr> else item) cart)))"

definition getTotal :: "CartItem_pdv list \<Rightarrow> rat \<Rightarrow> rat" where
  "getTotal cart discount =
     (let subtotal = foldl (\<lambda>sum item. sum + sale_price item * of_int (quantity_pdv item)) 0 cart
      in subtotal - discount)"

definition addProductToCart ::
  "CartItem_p001 list \<Rightarrow> Product \<Rightarrow> int \<Rightarrow> toast option \<times> CartItem_p001 list" where
  "addProductToCart cart p qty =
     (if qty \<le> 0 then (None, cart)
      else
        (case find (\<lambda>c. p_id (product_p001 c) = p_id p) cart of
           Some existing \<Rightarrow>
             (if stock_quantity p < quantity_p001 existing + qty then (Some InsufficientStock, cart)
              else (Some Added,
                    map (\<lambda>c. if p_id (product_p001 c) = p_id p
                              then c\<lparr>quantity_p001 := quantity_p001 c + qty\<rparr> else c) cart))
         | None \<Rightarrow>
             (if stock_quantity p < qty then (Some InsufficientStock, cart)
              else (Some Added, cart @ [\<lparr>product_p001 = p, quantity_p001 = qty\<rparr>]))))"

definition updateItemQty ::
  "Product list \<Rightarrow> CartItem_p001 list \<Rightarrow> string \<Rightarrow> int \<Rightarrow> toast option \<times> CartItem_p001 list" where
  "updateItemQty products prev productId newQty =
     (if newQty \<le> 0 then (None, filter (\<lambda>c. p_id (product_p001 c) \<noteq> productId) prev)
      else
        (case find (\<lambda>p. p_id p = productId) products of
           Some found \<Rightarrow>
             (if stock_quantity found < newQty then (Some InsufficientStock, prev)
              else (None, map (\<lambda>c. if p_id (product_p001 c) = productId
                                     then c\<lparr>quantity_p001 := newQty\<rparr> else c) prev))
         | None \<Rightarrow>
             (None, map (\<lambda>c. if p_id (product_p001 c) = productId
                              then c\<lparr>quantity_p001 := newQty\<rparr> else c) prev)))"

definition subtotal :: "CartItem_p001 list \<Rightarrow> rat" where
  "subtotal cart =
     foldl (\<lambda>sum item. sum + sale_price (product_p001 item) * of_int (quantity_p001 item)) 0 cart"

definition total_p001 :: "CartItem_p001 list \<Rightarrow> rat \<Rightarrow> rat" where
  "total_p001 cart discount = max 0 (subtotal cart - (if isFinite discount then discount else 0))"

section \<open>The store\<close>

text \<open>
  The hosted database is modelled by its four tables, each a list of rows, and by the
  operations the pages call on it. A call to the store may fail: \<open>fails\<close> says which
  ones do, and a failed call changes nothing. Row identifiers that the store generates
  (\<open>DEFAULT gen_random_uuid()\<close>) come from \<open>gen_uuid\<close>, applied to the number of rows
  the table holds. \<open>now\<close> is the time value \<open>new Date()\<close> gives, \<open>tza\<close> the
  host's offset of local time (\<open>LocalTZA\<close>) and \<open>number_toFixed2\<close> the host's
  \<open>Number(x.toFixed(2))\<close>.

  A column of type \<open>DECIMAL(10,2)\<close> holds what it is sent rounded to two places, a
  tie away from zero (\<open>numeric_10_2\<close>). A value too large for the column makes the
  call fail: that is one of the failures \<open>fails\<close> stands for.
\<close>

datatype store_op =
  InsertSale | InsertSaleItems | UpdateStock string | InsertInstallments | UpdateInstallment

record env =
  fails :: "store_op \<Rightarrow> bool"
  gen_uuid :: "nat \<Rightarrow> string"
  now :: int
  tza :: "int \<Rightarrow> bool \<Rightarrow> int"
  number_toFixed2 :: "rat \<Rightarrow> rat"

definition numeric_10_2 :: "rat \<Rightarrow> rat" where
  "numeric_10_2 x =
     (if x < 0 then - (of_int \<lfloor>(- x) * 100 + 1 / 2\<rfloor> / 100)
      else of_int \<lfloor>x * 100 + 1 / 2\<rfloor> / 100)"

record Sale =
  sale_id :: string
  sale_customer_id :: "string option"
  sale_user_id :: string
  total_amount :: rat
  sale_discount :: rat
  payment_method :: string
  sale_installments :: int
  sale_status :: string

record SaleItem =
  si_sale_id :: string
  si_product_id :: string
  si_quantity :: int
  unit_price :: rat
  total_price :: rat

text \<open>A date column read back is a date string; the page also writes full timestamps.\<close>

datatype iso_string = IsoDate date | IsoTimestamp int

record Installment =
  inst_id :: string
  inst_sale_id :: string
  installment_number :: int
  amount :: rat
  due_date :: date
  payment_date :: "iso_string option"
  status :: "string option"

text \<open>The object the sale inserts for an installment: the other columns take defaults.\<close>

record NewInstallment =
  new_sale_id :: string
  new_installment_number :: int
  new_amount :: rat
  new_due_date :: date
  new_status :: string

record db =
  sales :: "Sale list"
  sale_items :: "SaleItem list"
  products_tbl :: "Product list"
  installments_tbl :: "Installment list"

text \<open>\<open>from("products").update({ stock_quantity: v }).eq("id", pid)\<close>\<close>

definition update_stock_quantity :: "string \<Rightarrow> int \<Rightarrow> Product list \<Rightarrow> Product list" where
  "update_stock_quantity pid v ps =
     map (\<lambda>p. if p_id p = pid then p\<lparr>stock_quantity := v\<rparr> else p) ps"

text \<open>\<open>from("installments").insert(rows)\<close>\<close>

definition insert_installments ::
  "env \<Rightarrow> NewInstallment list \<Rightarrow> Installment list \<Rightarrow> Installment list" where
  "insert_installments e rows tbl =
     tbl @ map (\<lambda>(k, r). \<lparr>inst_id = gen_uuid e (length tbl + k), inst_sale_id = new_sale_id r,
                           installment_number = new_installment_number r,
                           amount = numeric_10_2 (new_amount r), due_date = new_due_date r,
                           payment_date = None, status = Some (new_status r)\<rparr>)
             (enumerate 0 rows)"

text \<open>\<open>from("installments").update({ status, payment_date }).eq("id", i)\<close>\<close>

definition update_installment ::
  "string \<Rightarrow> string \<Rightarrow> iso_string \<Rightarrow> 'a Installment_scheme list \<Rightarrow> 'a Installment_scheme list" where
  "update_installment i st pd rows =
     map (\<lambda>r. if inst_id r = i then r\<lparr>status := Some st, payment_date := Some pd\<rparr> else r) rows"

text \<open>The persisted stock of a product, if the table has a row for it.\<close>

definition stock_of :: "db \<Rightarrow> string \<Rightarrow> int option" where
  "stock_of d pid = map_option stock_quantity (find (\<lambda>p. p_id p = pid) (products_tbl d))"

section \<open>The point of sale: finishing a sale\<close>

text \<open>
  \<open>finalizeSale\<close> takes the environment, the page state it reads (cart, signed-in user,
  selected customer, discount, payment method, number of installments) and the store,
  and returns the notification shown with the store as it leaves it. A store call that
  fails ends the sale with the "Erro" notification; nothing written before is undone.
  The reset of the page state and the receipt that follow a completed sale are not
  modelled.
\<close>

text \<open>The stock loop of \<open>PDV.tsx\<close>: one write per cart line, in order.\<close>

fun update_stock_pdv :: "env \<Rightarrow> CartItem_pdv list \<Rightarrow> Product list \<Rightarrow> bool \<times> Product list" where
  "update_stock_pdv e [] ps = (True, ps)"
| "update_stock_pdv e (item # rest) ps =
     (if fails e (UpdateStock (p_id item)) then (False, ps)
      else update_stock_pdv e rest
             (update_stock_quantity (p_id item) (stock_quantity item - quantity_pdv item) ps))"

text \<open>The installment loop of \<open>PDV.tsx\<close>: \<open>for (let i = 1; i <= installments; i++)\<close>.\<close>

function installment_loop_pdv ::
  "env \<Rightarrow> string \<Rightarrow> rat \<Rightarrow> int \<Rightarrow> int \<Rightarrow> NewInstallment list \<Rightarrow> NewInstallment list" where
  "installment_loop_pdv e sid installmentAmount installments i installmentData =
     (if i \<le> installments then
        installment_loop_pdv e sid installmentAmount installments (i + 1)
          (installmentData @
            [\<lparr>new_sale_id = sid, new_installment_number = i, new_amount = installmentAmount,
              new_due_date = toISODate (setMonth (tza e) (now e) (getMonth (tza e) (now e) + i)),
              new_status = ''pending''\<rparr>])
      else installmentData)"
  by pat_completeness auto
termination
  by (relation "measure (\<lambda>(e, sid, a, n, i, acc). nat (n + 1 - i))") auto

declare installment_loop_pdv.simps [simp del]

definition finalizeSale_pdv ::
  "env \<Rightarrow> CartItem_pdv list \<Rightarrow> string option \<Rightarrow> string \<Rightarrow> rat \<Rightarrow> string \<Rightarrow> int \<Rightarrow> db
     \<Rightarrow> toast \<times> db" where
  "finalizeSale_pdv e cart user selectedCustomer discount paymentMethod installments d =
     (if cart = [] then (EmptyCart, d)
      else case user of
        None \<Rightarrow> (Unauthenticated, d)
      | Some uid \<Rightarrow>
          (if fails e InsertSale then (StoreError, d)
           else
            let sid = gen_uuid e (length (sales d));
                d1 = d\<lparr>sales := sales d @
                       [\<lparr>sale_id = sid,
                         sale_customer_id =
                           (if selectedCustomer = [] then None else Some selectedCustomer),
                         sale_user_id = uid,
                         total_amount = numeric_10_2 (getTotal cart discount),
                         sale_discount = numeric_10_2 discount,
                         payment_method = paymentMethod,
                         sale_installments =
                           (if paymentMethod = ''installment'' then installments else 1),
                         sale_status = ''completed''\<rparr>]\<rparr>;
                saleItems = map (\<lambda>item. \<lparr>si_sale_id = sid, si_product_id = p_id item,
                                           si_quantity = quantity_pdv item,
                                           unit_price = numeric_10_2 (sale_price item),
                                           total_price =
                                             numeric_10_2 (sale_price item * of_int (quantity_pdv item))\<rparr>)
                              cart
            in
              (if fails e InsertSaleItems then (StoreError, d1)
               else
                let d2 = d1\<lparr>sale_items := sale_items d1 @ saleItems\<rparr> in
                (case update_stock_pdv e cart (products_tbl d2) of
                  (False, ps) \<Rightarrow> (StoreError, d2\<lparr>products_tbl := ps\<rparr>)
                | (True, ps) \<Rightarrow>
                    let d3 = d2\<lparr>products_tbl := ps\<rparr> in
                    (if paymentMethod = ''installment'' \<and> 1 < installments then
                       (let installmentAmount = getTotal cart discount / of_int installments;
                            installmentData =
                              installment_loop_pdv e sid installmentAmount installments 1 []
                        in
                          (if fails e InsertInstallments then (StoreError, d3)
                           else (SaleCompleted,
                                 d3\<lparr>installments_tbl :=
                                      insert_installments e installmentData (installments_tbl d3)\<rparr>)))
                     else (SaleCompleted, d3))))))"

text \<open>The stock loop of \<open>part_001\<close>.\<close>

fun update_stock_p001 :: "env \<Rightarrow> CartItem_p001 list \<Rightarrow> Product list \<Rightarrow> bool \<times> Product list" where
  "update_stock_p001 e [] ps = (True, ps)"
| "update_stock_p001 e (item # rest) ps =
     (let newQty = stock_quantity (product_p001 item) - quantity_p001 item in
      if fails e (UpdateStock (p_id (product_p001 item))) then (False, ps)
      else update_stock_p001 e rest (update_stock_quantity (p_id (product_p001 item)) newQty ps))"

text \<open>
  The installment rows of \<open>part_001\<close>:
  \<open>Array.from({ length: installments }).map((_, idx) => ...)\<close>.
\<close>

definition installment_rows_p001 :: "env \<Rightarrow> string \<Rightarrow> rat \<Rightarrow> int \<Rightarrow> NewInstallment list" where
  "installment_rows_p001 e sid total_amt installments =
     (let installmentAmount = number_toFixed2 e (total_amt / of_int installments) in
      map (\<lambda>idx. \<lparr>new_sale_id = sid, new_installment_number = idx + 1,
                   new_amount = installmentAmount,
                   new_due_date =
                     toISODate (setMonth (tza e) (now e) (getMonth (tza e) (now e) + (idx + 1))),
                   new_status = ''pending''\<rparr>)
        [0..installments - 1])"

definition finalizeSale_p001 ::
  "env \<Rightarrow> CartItem_p001 list \<Rightarrow> string option \<Rightarrow> string \<Rightarrow> rat \<Rightarrow> string \<Rightarrow> int \<Rightarrow> db
     \<Rightarrow> toast \<times> db" where
  "finalizeSale_p001 e cart user selectedCustomerId discount paymentMethod installments d =
     (if cart = [] then (EmptyCart, d)
      else case user of
        None \<Rightarrow> (Unauthenticated, d)
      | Some uid \<Rightarrow>
          (if fails e InsertSale then (StoreError, d)
           else
            let sid = gen_uuid e (length (sales d));
                d1 = d\<lparr>sales := sales d @
                       [\<lparr>sale_id = sid,
                         sale_customer_id =
                           (if selectedCustomerId = [] then None else Some selectedCustomerId),
                         sale_user_id = uid,
                         total_amount = numeric_10_2 (total_p001 cart discount),
                         sale_discount = numeric_10_2 discount,
                         payment_method = paymentMethod,
                         sale_installments =
                           (if paymentMethod = ''installment'' then installments else 1),
                         sale_status = ''completed''\<rparr>]\<rparr>;
                saleItems = map (\<lambda>item. \<lparr>si_sale_id = sid, si_product_id = p_id (product_p001 item),
                                           si_quantity = quantity_p001 item,
                                           unit_price = numeric_10_2 (sale_price (product_p001 item)),
                                           total_price =
                                             numeric_10_2 (sale_price (product_p001 item)
                                                             * of_int (quantity_p001 item))\<rparr>)
                              cart
            in
              (if fails e InsertSaleItems then (StoreError, d1)
               else
                let d2 = d1\<lparr>sale_items := sale_items d1 @ saleItems\<rparr> in
                (case update_stock_p001 e cart (products_tbl d2) of
                  (False, ps) \<Rightarrow> (StoreError, d2\<lparr>products_tbl := ps\<rparr>)
                | (True, ps) \<Rightarrow>
                    let d3 = d2\<lparr>products_tbl := ps\<rparr> in
                    (if paymentMethod = ''installment'' \<and> 1 < installments then
                       (let rows = installment_rows_p001 e sid (total_p001 cart discount) installments
                        in
                          (if fails e InsertInstallments then (StoreError, d3)
                           else (SaleCompleted,
                                 d3\<lparr>installments_tbl :=
                                      insert_installments e rows (installments_tbl d3)\<rparr>)))
                     else (SaleCompleted, d3))))))"

section \<open>The installments page\<close>

text \<open>
  \<open>src/pages/Installments.tsx\<close> holds two variants of the page. Their \<open>markAsPaid\<close>
  is the same function up to the type of the rows the page keeps beside the table:
  the first keeps the installment with a \<open>sale_code\<close>, the second adds the customer's
  name, the sale's total and the \<open>is_overdue\<close> flag.
\<close>

record InstallmentRow = Installment +
  sale_code :: string
  customer_name :: "string option"
  row_total_amount :: "rat option"
  is_overdue :: "bool option"

text \<open>
  \<open>markAsPaid\<close> works on the table of the store and on the rows of the page. Both
  \<open>new Date()\<close> of the source are read as the same instant.
\<close>

definition markAsPaid ::
  "env \<Rightarrow> string \<Rightarrow> Installment list \<times> 'a Installment_scheme list
     \<Rightarrow> toast \<times> Installment list \<times> 'a Installment_scheme list" where
  "markAsPaid e i st =
     (case st of (tbl, rows) \<Rightarrow>
        if fails e UpdateInstallment then (StoreError, tbl, rows)
        else (MarkedPaid,
              update_installment i ''paid'' (IsoDate (toISODate (now e))) tbl,
              map (\<lambda>r. if inst_id r = i
                        then r\<lparr>status := Some ''paid'', payment_date := Some (IsoTimestamp (now e))\<rparr>
                        else r) rows))"

text \<open>
  The second variant's \<open>filtered\<close>: the callback of \<open>rows.filter\<close> first stores the
  overdue flag in the row it is given, then decides whether the row is listed. The
  match of the search text is left as a parameter. The function returns the rows
  listed and the rows of the page as the callback leaves them.
\<close>

definition set_is_overdue :: "int \<Rightarrow> InstallmentRow \<Rightarrow> InstallmentRow" where
  "set_is_overdue today r =
     r\<lparr>is_overdue := Some (status r = Some ''pending'' \<and> Date_parse (due_date r) < today)\<rparr>"

definition filtered ::
  "int \<Rightarrow> (InstallmentRow \<Rightarrow> bool) \<Rightarrow> string \<Rightarrow> InstallmentRow list
     \<Rightarrow> InstallmentRow list \<times> InstallmentRow list" where
  "filtered today queryMatch sel rows =
     (let rows' = map (set_is_overdue today) rows in
      (filter (\<lambda>r. (if sel = ''pending'' then status r = Some ''pending''
                     else if sel = ''paid'' then status r = Some ''paid''
                     else if sel = ''overdue'' then is_overdue r = Some True
                     else True) \<and> queryMatch r) rows',
       rows'))"

datatype badge = Pago | Vencido | Pendente

definition getStatusBadge :: "InstallmentRow \<Rightarrow> badge" where
  "getStatusBadge row =
     (if status row = Some ''paid'' then Pago
      else if is_overdue row = Some True then Vencido
      else Pendente)"

section \<open>Example data\<close>

text \<open>
  Two products, cart lines of either variant of the page, a store whose calls all
  succeed at 2024-01-15 12:00 UTC on a host in the UTC zone whose
  \<open>Number(x.toFixed(2))\<close> is the decimal rounding (which it is on the amounts of the
  examples), a store holding both products, one whose stock of shirts has dropped to 3
  since the products were loaded, and two installments.
\<close>

abbreviation shirt :: Product where
  "shirt \<equiv> \<lparr>p_id = ''P1'', p_code = ''C1'', p_name = ''Camisa'', p_size = ''M'',
              p_color = ''azul'', sale_price = 50, stock_quantity = 5\<rparr>"

abbreviation jeans :: Product where
  "jeans \<equiv> \<lparr>p_id = ''P2'', p_code = ''C2'', p_name = ''Calca'', p_size = ''42'',
              p_color = ''preta'', sale_price = 120, stock_quantity = 3\<rparr>"

abbreviation line_p001 :: "Product \<Rightarrow> int \<Rightarrow> CartItem_p001" where
  "line_p001 p q \<equiv> \<lparr>product_p001 = p, quantity_p001 = q\<rparr>"

abbreviation line_pdv :: "Product \<Rightarrow> int \<Rightarrow> CartItem_pdv" where
  "line_pdv p q \<equiv> \<lparr>p_id = p_id p, p_code = p_code p, p_name = p_name p, p_size = p_size p,
                     p_color = p_color p, sale_price = sale_price p,
                     stock_quantity = stock_quantity p, quantity_pdv = q\<rparr>"

abbreviation store_ok :: env where
  "store_ok \<equiv> \<lparr>fails = (\<lambda>_. False), gen_uuid = (\<lambda>k. replicate (Suc k) CHR ''#''),
                now = 1705320000000, tza = (\<lambda>t isUTC. 0), number_toFixed2 = numeric_10_2\<rparr>"

abbreviation empty_db :: db where
  "empty_db \<equiv> \<lparr>sales = [], sale_items = [], products_tbl = [shirt, jeans], installments_tbl = []\<rparr>"

abbreviation stale_db :: db where
  "stale_db \<equiv> \<lparr>sales = [], sale_items = [],
                products_tbl = [shirt\<lparr>stock_quantity := 3\<rparr>, jeans], installments_tbl = []\<rparr>"

abbreviation inst1 :: Installment where
  "inst1 \<equiv> \<lparr>inst_id = ''i1'', inst_sale_id = ''s1'', installment_number = 1, amount = 3333 / 100,
             due_date = (2024, 1, 14), payment_date = None, status = Some ''pending''\<rparr>"

abbreviation inst2 :: Installment where
  "inst2 \<equiv> \<lparr>inst_id = ''i2'', inst_sale_id = ''s1'', installment_number = 2, amount = 3333 / 100,
             due_date = (2024, 2, 14), payment_date = None, status = Some ''pending''\<rparr>"

abbreviation row1 :: InstallmentRow where
  "row1 \<equiv> \<lparr>inst_id = ''i1'', inst_sale_id = ''s1'', installment_number = 1, amount = 3333 / 100,
             due_date = (2024, 1, 14), payment_date = None, status = Some ''pending'',
             sale_code = ''s1'', customer_name = None, row_total_amount = None, is_overdue = None\<rparr>"

section \<open>Cart operations and totals: lemmas\<close>

lemma foldl_add_sum_list:
  fixes a :: rat
  shows "foldl (\<lambda>s x. s + f x) a xs = a + sum_list (map f xs)"
  by (induction xs arbitrary: a) (simp_all add: add.assoc)

lemma subtotal_sum_list:
  "subtotal cart = (\<Sum>c\<leftarrow>cart. sale_price (product_p001 c) * of_int (quantity_p001 c))"
  by (simp add: subtotal_def foldl_add_sum_list)

lemma total_p001_max:
  "total_p001 cart d = max 0 ((\<Sum>c\<leftarrow>cart. sale_price (product_p001 c) * of_int (quantity_p001 c)) - d)"
  by (simp add: total_p001_def isFinite_def subtotal_sum_list)

lemma total_p001_nonneg: "0 \<le> total_p001 cart d"
  by (simp add: total_p001_def)

lemma getTotal_sum_list:
  "getTotal cart d = (\<Sum>c\<leftarrow>cart. sale_price c * of_int (quantity_pdv c)) - d"
  by (simp add: getTotal_def foldl_add_sum_list)

lemma find_distinct_filter:
  "distinct (map f xs) \<Longrightarrow> find (\<lambda>c. f c = k) xs = Some x \<Longrightarrow> filter (\<lambda>c. f c = k) xs = [x]"
proof (induction xs)
  case Nil
  then show ?case by simp
next
  case (Cons a xs)
  show ?case
  proof (cases "f a = k")
    case True
    with Cons.prems have "a = x" and "k \<notin> f ` set xs" by auto
    then have "filter (\<lambda>c. f c = k) xs = []" by (auto simp: filter_empty_conv)
    with True \<open>a = x\<close> show ?thesis by simp
  next
    case False
    with Cons show ?thesis by simp
  qed
qed

lemma filter_map_update:
  assumes "\<And>c. f (g c) = f c"
  shows "filter (\<lambda>c. f c = k) (map (\<lambda>c. if f c = k then g c else c) xs)
         = map g (filter (\<lambda>c. f c = k) xs)"
  using assms by (induction xs) auto

lemma filter_neq_map_update:
  assumes "\<And>c. f (g c) = f c"
  shows "filter (\<lambda>c. f c \<noteq> k) (map (\<lambda>c. if f c = k then g c else c) xs)
         = filter (\<lambda>c. f c \<noteq> k) xs"
  using assms by (induction xs) auto

lemma map_key_map_update:
  assumes "\<And>c. f (g c) = f c"
  shows "map f (map (\<lambda>c. if f c = k then g c else c) xs) = map f xs"
  using assms by (induction xs) auto

lemma map_update_absent:
  "\<forall>c\<in>set xs. f c \<noteq> k \<Longrightarrow> map (\<lambda>c. if f c = k then g c else c) xs = xs"
  by (induction xs) auto

lemma addProductToCart_existing:
  assumes "find (\<lambda>c. p_id (product_p001 c) = p_id p) cart = Some existing" and "0 < q2"
  shows "addProductToCart cart p q2 =
           (if stock_quantity p < quantity_p001 existing + q2 then (Some InsufficientStock, cart)
            else (Some Added,
                  map (\<lambda>c. if p_id (product_p001 c) = p_id p
                            then c\<lparr>quantity_p001 := quantity_p001 c + q2\<rparr> else c) cart))"
  using assms by (simp add: addProductToCart_def)

lemma addToCart_existing:
  assumes "find (\<lambda>item. p_id item = p_id p) cart = Some existing"
  shows "addToCart cart p =
           (if stock_quantity p < quantity_pdv existing + 1 then (Some InsufficientStock, cart)
            else (Some Added,
                  map (\<lambda>item. if p_id item = p_id p
                               then item\<lparr>quantity_pdv := quantity_pdv item + 1\<rparr> else item) cart))"
  using assms by (simp add: addToCart_def)

lemma add_existing_p001:
  assumes d: "distinct (map (\<lambda>c. p_id (product_p001 c)) cart)"
    and f: "find (\<lambda>c. p_id (product_p001 c) = p_id p) cart = Some existing"
    and q: "0 < q2"
  shows "(quantity_p001 existing + q2 \<le> stock_quantity p \<longrightarrow>
            fst (addProductToCart cart p q2) = Some Added \<and>
            map (\<lambda>c. p_id (product_p001 c)) (snd (addProductToCart cart p q2))
              = map (\<lambda>c. p_id (product_p001 c)) cart \<and>
            filter (\<lambda>c. p_id (product_p001 c) = p_id p) (snd (addProductToCart cart p q2))
              = [existing\<lparr>quantity_p001 := quantity_p001 existing + q2\<rparr>] \<and>
            filter (\<lambda>c. p_id (product_p001 c) \<noteq> p_id p) (snd (addProductToCart cart p q2))
              = filter (\<lambda>c. p_id (product_p001 c) \<noteq> p_id p) cart) \<and>
         (stock_quantity p < quantity_p001 existing + q2 \<longrightarrow>
            addProductToCart cart p q2 = (Some InsufficientStock, cart))"
proof -
  let ?f = "\<lambda>c. p_id (product_p001 c)"
  let ?g = "\<lambda>c. c\<lparr>quantity_p001 := quantity_p001 c + q2\<rparr>"
  have inv: "\<And>c. ?f (?g c) = ?f c" by simp
  have one: "filter (\<lambda>c. ?f c = p_id p) cart = [existing]"
    using find_distinct_filter [OF d f] .
  show ?thesis
    unfolding addProductToCart_existing [OF f q]
    using filter_map_update [of ?f ?g "p_id p" cart, OF inv]
          filter_neq_map_update [of ?f ?g "p_id p" cart, OF inv]
          map_key_map_update [of ?f ?g "p_id p" cart, OF inv] one
    by simp
qed

lemma add_existing_pdv:
  assumes d: "distinct (map p_id cart)"
    and f: "find (\<lambda>item. p_id item = p_id p) cart = Some existing"
  shows "(quantity_pdv existing + 1 \<le> stock_quantity p \<longrightarrow>
            fst (addToCart cart p) = Some Added \<and>
            map p_id (snd (addToCart cart p)) = map p_id cart \<and>
            filter (\<lambda>c. p_id c = p_id p) (snd (addToCart cart p))
              = [existing\<lparr>quantity_pdv := quantity_pdv existing + 1\<rparr>] \<and>
            filter (\<lambda>c. p_id c \<noteq> p_id p) (snd (addToCart cart p))
              = filter (\<lambda>c. p_id c \<noteq> p_id p) cart) \<and>
         (stock_quantity p < quantity_pdv existing + 1 \<longrightarrow>
            addToCart cart p = (Some InsufficientStock, cart))"
proof -
  let ?f = "p_id :: CartItem_pdv \<Rightarrow> string"
  let ?g = "\<lambda>c :: CartItem_pdv. c\<lparr>quantity_pdv := quantity_pdv c + 1\<rparr>"
  have inv: "\<And>c. ?f (?g c) = ?f c" by simp
  have one: "filter (\<lambda>c. ?f c = p_id p) cart = [existing]"
    using find_distinct_filter [OF d f] .
  show ?thesis
    unfolding addToCart_existing [OF f]
    using filter_map_update [of ?f ?g "p_id p" cart, OF inv]
          filter_neq_map_update [of ?f ?g "p_id p" cart, OF inv]
          map_key_map_update [of ?f ?g "p_id p" cart, OF inv] one
    by simp
qed

lemma updateItemQty_cases:
  "(newQty \<le> 0 \<longrightarrow>
      updateItemQty ps cart pid newQty = (None, filter (\<lambda>c. p_id (product_p001 c) \<noteq> pid) cart) \<and>
      pid \<notin> (\<lambda>c. p_id (product_p001 c)) ` set (snd (updateItemQty ps cart pid newQty))) \<and>
   (0 < newQty \<and> find (\<lambda>p. p_id p = pid) ps = Some pr \<and> stock_quantity pr < newQty \<longrightarrow>
      updateItemQty ps cart pid newQty = (Some InsufficientStock, cart)) \<and>
   (0 < newQty \<and> (find (\<lambda>p. p_id p = pid) ps = None \<or>
                   find (\<lambda>p. p_id p = pid) ps = Some pr \<and> newQty \<le> stock_quantity pr) \<longrightarrow>
      updateItemQty ps cart pid newQty =
        (None, map (\<lambda>c. if p_id (product_p001 c) = pid then c\<lparr>quantity_p001 := newQty\<rparr> else c) cart))"
  by (auto simp: updateItemQty_def)

lemma updateQuantity_cases:
  "(newQty \<le> 0 \<longrightarrow>
      updateQuantity ps cart pid newQty = (None, filter (\<lambda>c. p_id c \<noteq> pid) cart) \<and>
      pid \<notin> p_id ` set (snd (updateQuantity ps cart pid newQty))) \<and>
   (0 < newQty \<and> find (\<lambda>p. p_id p = pid) ps = Some pr \<and> stock_quantity pr < newQty \<longrightarrow>
      updateQuantity ps cart pid newQty = (Some InsufficientStock, cart)) \<and>
   (0 < newQty \<and> (find (\<lambda>p. p_id p = pid) ps = None \<or>
                   find (\<lambda>p. p_id p = pid) ps = Some pr \<and> newQty \<le> stock_quantity pr) \<longrightarrow>
      updateQuantity ps cart pid newQty =
        (None, map (\<lambda>c. if p_id c = pid then c\<lparr>quantity_pdv := newQty\<rparr> else c) cart))"
  by (auto simp: updateQuantity_def)

lemma updateItemQty_absent:
  assumes "\<forall>c\<in>set cart. p_id (product_p001 c) \<noteq> pid" and "0 < n"
    and "find (\<lambda>p. p_id p = pid) ps = Some pr" and "n \<le> stock_quantity pr"
  shows "updateItemQty ps cart pid n = (None, cart)"
  using assms map_update_absent [of cart "\<lambda>c. p_id (product_p001 c)" pid]
  by (simp add: updateItemQty_def)

lemma updateQuantity_absent:
  assumes "\<forall>c\<in>set cart. p_id c \<noteq> pid" and "0 < n"
    and "find (\<lambda>p. p_id p = pid) ps = Some pr" and "n \<le> stock_quantity pr"
  shows "updateQuantity ps cart pid n = (None, cart)"
  using assms map_update_absent [of cart p_id pid]
  by (simp add: updateQuantity_def)

lemma find_None_absent: "find (\<lambda>c. f c = k) xs = None \<Longrightarrow> k \<notin> f ` set xs"
  by (auto simp: find_None_iff)

lemma addProductToCart_distinct:
  assumes "distinct (map (\<lambda>c. p_id (product_p001 c)) cart)"
  shows "distinct (map (\<lambda>c. p_id (product_p001 c)) (snd (addProductToCart cart p qty)))"
proof (cases "find (\<lambda>c. p_id (product_p001 c) = p_id p) cart")
  case None
  then have "p_id p \<notin> (\<lambda>c. p_id (product_p001 c)) ` set cart" by (rule find_None_absent)
  with None assms show ?thesis by (simp add: addProductToCart_def)
next
  case (Some ex)
  let ?upd = "map (\<lambda>c. if p_id (product_p001 c) = p_id p
                         then c\<lparr>quantity_p001 := quantity_p001 c + qty\<rparr> else c) cart"
  have eq: "map (\<lambda>c. p_id (product_p001 c)) ?upd = map (\<lambda>c. p_id (product_p001 c)) cart"
    by (rule map_key_map_update) simp
  have "snd (addProductToCart cart p qty) = cart \<or> snd (addProductToCart cart p qty) = ?upd"
    using Some by (simp add: addProductToCart_def)
  then show ?thesis
  proof
    assume "snd (addProductToCart cart p qty) = cart"
    with assms show ?thesis by simp
  next
    assume "snd (addProductToCart cart p qty) = ?upd"
    with assms eq show ?thesis by (simp only:)
  qed
qed

lemma updateItemQty_distinct:
  assumes "distinct (map (\<lambda>c. p_id (product_p001 c)) cart)"
  shows "distinct (map (\<lambda>c. p_id (product_p001 c)) (snd (updateItemQty ps cart pid n)))"
proof -
  let ?upd = "map (\<lambda>c. if p_id (product_p001 c) = pid then c\<lparr>quantity_p001 := n\<rparr> else c) cart"
  have eq: "map (\<lambda>c. p_id (product_p001 c)) ?upd = map (\<lambda>c. p_id (product_p001 c)) cart"
    by (rule map_key_map_update) simp
  have "snd (updateItemQty ps cart pid n) = cart
        \<or> snd (updateItemQty ps cart pid n) = filter (\<lambda>c. p_id (product_p001 c) \<noteq> pid) cart
        \<or> snd (updateItemQty ps cart pid n) = ?upd"
    by (simp add: updateItemQty_def split: option.splits)
  then show ?thesis
  proof (elim disjE)
    assume "snd (updateItemQty ps cart pid n) = cart"
    with assms show ?thesis by simp
  next
    assume "snd (updateItemQty ps cart pid n) = filter (\<lambda>c. p_id (product_p001 c) \<noteq> pid) cart"
    with assms show ?thesis by (simp add: distinct_map_filter)
  next
    assume "snd (updateItemQty ps cart pid n) = ?upd"
    with assms eq show ?thesis by (simp only:)
  qed
qed

section \<open>Finishing a sale: lemmas\<close>

lemma find_update_stock_quantity:
  "find (\<lambda>p. p_id p = k) (update_stock_quantity pid v ps) =
     (if k = pid then map_option (\<lambda>p. p\<lparr>stock_quantity := v\<rparr>) (find (\<lambda>p. p_id p = k) ps)
      else find (\<lambda>p. p_id p = k) ps)"
  by (induction ps) (auto simp: update_stock_quantity_def)

lemma stock_update_stock_quantity:
  "map_option stock_quantity (find (\<lambda>p. p_id p = k) (update_stock_quantity pid v ps)) =
     (if k = pid then map_option (\<lambda>_. v) (find (\<lambda>p. p_id p = k) ps)
      else map_option stock_quantity (find (\<lambda>p. p_id p = k) ps))"
  by (simp add: find_update_stock_quantity option.map_comp comp_def)

lemma find_absent: "k \<notin> f ` set xs \<Longrightarrow> find (\<lambda>c. f c = k) xs = None"
  by (induction xs) auto

lemma find_distinct_member:
  "distinct (map f xs) \<Longrightarrow> x \<in> set xs \<Longrightarrow> find (\<lambda>c. f c = f x) xs = Some x"
  by (induction xs) (auto simp: rev_image_eqI)

lemma update_stock_p001_lookup:
  assumes "update_stock_p001 e cart ps = (True, ps')"
    and "distinct (map (\<lambda>c. p_id (product_p001 c)) cart)"
  shows "map_option stock_quantity (find (\<lambda>p. p_id p = k) ps') =
           (case find (\<lambda>c. p_id (product_p001 c) = k) cart of
              None \<Rightarrow> map_option stock_quantity (find (\<lambda>p. p_id p = k) ps)
            | Some c \<Rightarrow> map_option (\<lambda>_. stock_quantity (product_p001 c) - quantity_p001 c)
                          (find (\<lambda>p. p_id p = k) ps))"
  using assms
proof (induction cart arbitrary: ps)
  case Nil
  then show ?case by simp
next
  case (Cons item rest)
  let ?pid = "p_id (product_p001 item)"
  let ?v = "stock_quantity (product_p001 item) - quantity_p001 item"
  from Cons.prems(1) have nf: "\<not> fails e (UpdateStock ?pid)"
    and rec: "update_stock_p001 e rest (update_stock_quantity ?pid ?v ps) = (True, ps')"
    by (auto simp: Let_def split: if_splits)
  from Cons.prems(2) have dr: "distinct (map (\<lambda>c. p_id (product_p001 c)) rest)"
    and notin: "?pid \<notin> (\<lambda>c. p_id (product_p001 c)) ` set rest" by auto
  note IH = Cons.IH [OF rec dr]
  show ?case
  proof (cases "k = ?pid")
    case True
    with notin have "find (\<lambda>c. p_id (product_p001 c) = k) rest = None"
      by (simp add: find_absent)
    with IH True show ?thesis by (simp add: stock_update_stock_quantity)
  next
    case False
    with IH show ?thesis
      by (auto simp: stock_update_stock_quantity find_update_stock_quantity split: option.splits)
  qed
qed

lemma update_stock_pdv_lookup:
  assumes "update_stock_pdv e cart ps = (True, ps')"
    and "distinct (map p_id cart)"
  shows "map_option stock_quantity (find (\<lambda>p. p_id p = k) ps') =
           (case find (\<lambda>c. p_id c = k) cart of
              None \<Rightarrow> map_option stock_quantity (find (\<lambda>p. p_id p = k) ps)
            | Some c \<Rightarrow> map_option (\<lambda>_. stock_quantity c - quantity_pdv c)
                          (find (\<lambda>p. p_id p = k) ps))"
  using assms
proof (induction cart arbitrary: ps)
  case Nil
  then show ?case by simp
next
  case (Cons item rest)
  let ?pid = "p_id item"
  let ?v = "stock_quantity item - quantity_pdv item"
  from Cons.prems(1) have nf: "\<not> fails e (UpdateStock ?pid)"
    and rec: "update_stock_pdv e rest (update_stock_quantity ?pid ?v ps) = (True, ps')"
    by (auto split: if_splits)
  from Cons.prems(2) have dr: "distinct (map p_id rest)"
    and notin: "?pid \<notin> p_id ` set rest" by auto
  note IH = Cons.IH [OF rec dr]
  show ?case
  proof (cases "k = ?pid")
    case True
    with notin have "find (\<lambda>c. p_id c = k) rest = None"
      by (simp add: find_absent)
    with IH True show ?thesis by (simp add: stock_update_stock_quantity)
  next
    case False
    with IH show ?thesis
      by (auto simp: stock_update_stock_quantity find_update_stock_quantity split: option.splits)
  qed
qed

lemma finalizeSale_p001_completed:
  assumes "fst (finalizeSale_p001 e cart user sc disc pm n d) = SaleCompleted"
  shows "\<exists>uid ps. cart \<noteq> [] \<and> user = Some uid \<and>
           update_stock_p001 e cart (products_tbl d) = (True, ps) \<and>
           snd (finalizeSale_p001 e cart user sc disc pm n d) =
             \<lparr>sales = sales d @
                 [\<lparr>sale_id = gen_uuid e (length (sales d)),
                   sale_customer_id = (if sc = [] then None else Some sc),
                   sale_user_id = uid,
                   total_amount = numeric_10_2 (total_p001 cart disc),
                   sale_discount = numeric_10_2 disc,
                   payment_method = pm,
                   sale_installments = (if pm = ''installment'' then n else 1),
                   sale_status = ''completed''\<rparr>],
               sale_items = sale_items d @
                 map (\<lambda>item. \<lparr>si_sale_id = gen_uuid e (length (sales d)),
                               si_product_id = p_id (product_p001 item),
                               si_quantity = quantity_p001 item,
                               unit_price = numeric_10_2 (sale_price (product_p001 item)),
                               total_price =
                                 numeric_10_2 (sale_price (product_p001 item)
                                                 * of_int (quantity_p001 item))\<rparr>) cart,
               products_tbl = ps,
               installments_tbl =
                 (if pm = ''installment'' \<and> 1 < n
                  then insert_installments e
                         (installment_rows_p001 e (gen_uuid e (length (sales d)))
                            (total_p001 cart disc) n)
                         (installments_tbl d)
                  else installments_tbl d)\<rparr>"
  using assms
  by (cases d) (auto simp: finalizeSale_p001_def Let_def split: if_splits option.splits prod.splits bool.splits)

lemma installment_loop_pdv_eq:
  "installment_loop_pdv e sid a n i acc =
     acc @ map (\<lambda>k. \<lparr>new_sale_id = sid, new_installment_number = k, new_amount = a,
                       new_due_date = toISODate (setMonth (tza e) (now e) (getMonth (tza e) (now e) + k)),
                       new_status = ''pending''\<rparr>) [i..n]"
proof (induction e sid a n i acc rule: installment_loop_pdv.induct)
  case (1 e sid a n i acc)
  show ?case
  proof (cases "i \<le> n")
    case True
    then have "[i..n] = i # [i + 1..n]" by (simp add: upto_rec1)
    with True "1.IH" show ?thesis by (subst installment_loop_pdv.simps) simp
  next
    case False
    then show ?thesis by (subst installment_loop_pdv.simps) simp
  qed
qed

lemma finalizeSale_pdv_completed:
  assumes "fst (finalizeSale_pdv e cart user sc disc pm n d) = SaleCompleted"
  shows "\<exists>uid ps. cart \<noteq> [] \<and> user = Some uid \<and>
           update_stock_pdv e cart (products_tbl d) = (True, ps) \<and>
           snd (finalizeSale_pdv e cart user sc disc pm n d) =
             \<lparr>sales = sales d @
                 [\<lparr>sale_id = gen_uuid e (length (sales d)),
                   sale_customer_id = (if sc = [] then None else Some sc),
                   sale_user_id = uid,
                   total_amount = numeric_10_2 (getTotal cart disc),
                   sale_discount = numeric_10_2 disc,
                   payment_method = pm,
                   sale_installments = (if pm = ''installment'' then n else 1),
                   sale_status = ''completed''\<rparr>],
               sale_items = sale_items d @
                 map (\<lambda>item. \<lparr>si_sale_id = gen_uuid e (length (sales d)),
                               si_product_id = p_id item,
                               si_quantity = quantity_pdv item,
                               unit_price = numeric_10_2 (sale_price item),
                               total_price =
                                 numeric_10_2 (sale_price item * of_int (quantity_pdv item))\<rparr>) cart,
               products_tbl = ps,
               installments_tbl =
                 (if pm = ''installment'' \<and> 1 < n
                  then insert_installments e
                         (installment_loop_pdv e (gen_uuid e (length (sales d)))
                            (getTotal cart disc / of_int n) n 1 [])
                         (installments_tbl d)
                  else installments_tbl d)\<rparr>"
  using assms
  by (cases d) (auto simp: finalizeSale_pdv_def Let_def split: if_splits option.splits prod.splits bool.splits)

lemma length_insert_installments:
  "length (insert_installments e rows tbl) = length tbl + length rows"
  by (simp add: insert_installments_def)

lemma length_installment_rows_p001:
  "length (installment_rows_p001 e sid t n) = nat n"
  by (simp add: installment_rows_p001_def Let_def)

lemma length_installment_loop_pdv:
  "length (installment_loop_pdv e sid a n 1 []) = nat n"
  by (simp add: installment_loop_pdv_eq)

lemma finalizeSale_p001_sales:
  "sales (snd (finalizeSale_p001 e cart user sc disc pm n d)) = sales d \<or>
   (\<exists>s. sales (snd (finalizeSale_p001 e cart user sc disc pm n d)) = sales d @ [s] \<and>
        sale_installments s = (if pm = ''installment'' then n else 1))"
  by (simp add: finalizeSale_p001_def Let_def split: option.split prod.split bool.split)

lemma finalizeSale_pdv_sales:
  "sales (snd (finalizeSale_pdv e cart user sc disc pm n d)) = sales d \<or>
   (\<exists>s. sales (snd (finalizeSale_pdv e cart user sc disc pm n d)) = sales d @ [s] \<and>
        sale_installments s = (if pm = ''installment'' then n else 1))"
  by (simp add: finalizeSale_pdv_def Let_def split: option.split prod.split bool.split)

lemma finalizeSale_p001_no_installments:
  "\<not> (pm = ''installment'' \<and> 1 < n) \<Longrightarrow>
     installments_tbl (snd (finalizeSale_p001 e cart user sc disc pm n d)) = installments_tbl d"
  by (simp add: finalizeSale_p001_def Let_def split: option.split prod.split bool.split)

lemma finalizeSale_pdv_no_installments:
  "\<not> (pm = ''installment'' \<and> 1 < n) \<Longrightarrow>
     installments_tbl (snd (finalizeSale_pdv e cart user sc disc pm n d)) = installments_tbl d"
  by (simp add: finalizeSale_pdv_def Let_def split: option.split prod.split bool.split)

lemma installments_of_sale_p001:
  assumes "fst (finalizeSale_p001 e cart user sc disc pm n d) = SaleCompleted"
  shows "(\<exists>s. sales (snd (finalizeSale_p001 e cart user sc disc pm n d)) = sales d @ [s] \<and>
              sale_installments s = (if pm = ''installment'' then n else 1)) \<and>
         (\<exists>rows. installments_tbl (snd (finalizeSale_p001 e cart user sc disc pm n d))
                    = installments_tbl d @ rows \<and>
                 length rows = (if pm = ''installment'' \<and> 1 < n then nat n else 0))"
proof -
  from finalizeSale_p001_completed [OF assms] obtain uid ps where
    r: "snd (finalizeSale_p001 e cart user sc disc pm n d) =
             \<lparr>sales = sales d @
                 [\<lparr>sale_id = gen_uuid e (length (sales d)),
                   sale_customer_id = (if sc = [] then None else Some sc),
                   sale_user_id = uid,
                   total_amount = numeric_10_2 (total_p001 cart disc),
                   sale_discount = numeric_10_2 disc,
                   payment_method = pm,
                   sale_installments = (if pm = ''installment'' then n else 1),
                   sale_status = ''completed''\<rparr>],
               sale_items = sale_items d @
                 map (\<lambda>item. \<lparr>si_sale_id = gen_uuid e (length (sales d)),
                               si_product_id = p_id (product_p001 item),
                               si_quantity = quantity_p001 item,
                               unit_price = numeric_10_2 (sale_price (product_p001 item)),
                               total_price =
                                 numeric_10_2 (sale_price (product_p001 item)
                                                 * of_int (quantity_p001 item))\<rparr>) cart,
               products_tbl = ps,
               installments_tbl =
                 (if pm = ''installment'' \<and> 1 < n
                  then insert_installments e
                         (installment_rows_p001 e (gen_uuid e (length (sales d)))
                            (total_p001 cart disc) n)
                         (installments_tbl d)
                  else installments_tbl d)\<rparr>"
    by blast
  show ?thesis
    unfolding r by (simp add: insert_installments_def length_installment_rows_p001)
qed

lemma installments_of_sale_pdv:
  assumes "fst (finalizeSale_pdv e cart user sc disc pm n d) = SaleCompleted"
  shows "(\<exists>s. sales (snd (finalizeSale_pdv e cart user sc disc pm n d)) = sales d @ [s] \<and>
              sale_installments s = (if pm = ''installment'' then n else 1)) \<and>
         (\<exists>rows. installments_tbl (snd (finalizeSale_pdv e cart user sc disc pm n d))
                    = installments_tbl d @ rows \<and>
                 length rows = (if pm = ''installment'' \<and> 1 < n then nat n else 0))"
proof -
  from finalizeSale_pdv_completed [OF assms] obtain uid ps where
    r: "snd (finalizeSale_pdv e cart user sc disc pm n d) =
             \<lparr>sales = sales d @
                 [\<lparr>sale_id = gen_uuid e (length (sales d)),
                   sale_customer_id = (if sc = [] then None else Some sc),
                   sale_user_id = uid,
                   total_amount = numeric_10_2 (getTotal cart disc),
                   sale_discount = numeric_10_2 disc,
                   payment_method = pm,
                   sale_installments = (if pm = ''installment'' then n else 1),
                   sale_status = ''completed''\<rparr>],
               sale_items = sale_items d @
                 map (\<lambda>item. \<lparr>si_sale_id = gen_uuid e (length (sales d)),
                               si_product_id = p_id item,
                               si_quantity = quantity_pdv item,
                               unit_price = numeric_10_2 (sale_price item),
                               total_price =
                                 numeric_10_2 (sale_price item * of_int (quantity_pdv item))\<rparr>) cart,
               products_tbl = ps,
               installments_tbl =
                 (if pm = ''installment'' \<and> 1 < n
                  then insert_installments e
                         (installment_loop_pdv e (gen_uuid e (length (sales d)))
                            (getTotal cart disc / of_int n) n 1 [])
                         (installments_tbl d)
                  else installments_tbl d)\<rparr>"
    by blast
  show ?thesis
    unfolding r by (simp add: insert_installments_def length_installment_loop_pdv)
qed

lemma stock_after_sale_p001:
  assumes fin: "fst (finalizeSale_p001 e cart user sc disc pm n d) = SaleCompleted"
    and dist: "distinct (map (\<lambda>c. p_id (product_p001 c)) cart)"
    and mem: "c \<in> set cart"
    and bef: "stock_of d (p_id (product_p001 c)) = Some before"
  shows "stock_of (snd (finalizeSale_p001 e cart user sc disc pm n d)) (p_id (product_p001 c))
           = Some (stock_quantity (product_p001 c) - quantity_p001 c)"
proof -
  from finalizeSale_p001_completed [OF fin] obtain ps where
    us: "update_stock_p001 e cart (products_tbl d) = (True, ps)"
    and tbl: "products_tbl (snd (finalizeSale_p001 e cart user sc disc pm n d)) = ps"
    by force
  have f: "find (\<lambda>c'. p_id (product_p001 c') = p_id (product_p001 c)) cart = Some c"
    using find_distinct_member [of "\<lambda>c. p_id (product_p001 c)" cart c] dist mem by simp
  from update_stock_p001_lookup [OF us dist, of "p_id (product_p001 c)"] f bef tbl
  show ?thesis by (auto simp: stock_of_def)
qed

lemma stock_after_sale_pdv:
  assumes fin: "fst (finalizeSale_pdv e cart user sc disc pm n d) = SaleCompleted"
    and dist: "distinct (map p_id cart)"
    and mem: "c \<in> set cart"
    and bef: "stock_of d (p_id c) = Some before"
  shows "stock_of (snd (finalizeSale_pdv e cart user sc disc pm n d)) (p_id c)
           = Some (stock_quantity c - quantity_pdv c)"
proof -
  from finalizeSale_pdv_completed [OF fin] obtain ps where
    us: "update_stock_pdv e cart (products_tbl d) = (True, ps)"
    and tbl: "products_tbl (snd (finalizeSale_pdv e cart user sc disc pm n d)) = ps"
    by force
  have f: "find (\<lambda>c'. p_id c' = p_id c) cart = Some c"
    using find_distinct_member [of p_id cart c] dist mem by simp
  from update_stock_pdv_lookup [OF us dist, of "p_id c"] f bef tbl
  show ?thesis by (auto simp: stock_of_def)
qed

section \<open>The installments page: lemmas\<close>

lemma Day_now: "Day 1705320000000 = 19737"
  by (simp add: Day_def msPerDay_def)

lemma civil_now: "civil_from_days 19737 = (2024, 1, 15)"
  by code_simp

lemma toISODate_now: "toISODate 1705320000000 = (2024, 1, 15)"
  by (simp add: toISODate_def Day_now civil_now)

lemma update_installment_ids:
  "map inst_id (update_installment i st pd rows) = map inst_id rows"
  by (induction rows) (simp_all add: update_installment_def)

lemma update_installment_hit:
  assumes "r \<in> set (update_installment i st pd rows)" and "inst_id r = i"
  shows "status r = Some st \<and> payment_date r = Some pd"
proof -
  from assms(1) obtain x where
    x: "r = (if inst_id x = i then x\<lparr>status := Some st, payment_date := Some pd\<rparr> else x)"
    unfolding update_installment_def set_map by (rule imageE)
  show ?thesis
  proof (cases "inst_id x = i")
    case True
    with x show ?thesis by simp
  next
    case False
    with x assms(2) show ?thesis by simp
  qed
qed

lemma update_installment_miss:
  "k < length rows \<Longrightarrow> inst_id (rows ! k) \<noteq> i \<Longrightarrow> update_installment i st pd rows ! k = rows ! k"
  by (simp add: update_installment_def)

lemma update_installment_props:
  "map inst_id (update_installment i st pd rows) = map inst_id rows \<and>
   (\<forall>r\<in>set (update_installment i st pd rows).
      inst_id r = i \<longrightarrow> status r = Some st \<and> payment_date r = Some pd) \<and>
   (\<forall>k<length rows. inst_id (rows ! k) \<noteq> i \<longrightarrow> update_installment i st pd rows ! k = rows ! k)"
  using update_installment_ids [of i st pd rows] update_installment_hit [of _ i st pd rows]
        update_installment_miss [of _ rows i st pd]
  by blast

lemma update_installment_twice:
  "update_installment i st pd' (update_installment i st pd rows) = update_installment i st pd' rows"
  by (induction rows) (simp_all add: update_installment_def)

lemma markAsPaid_ok:
  "\<not> fails e UpdateInstallment \<Longrightarrow>
     markAsPaid e i (tbl, rows) =
       (MarkedPaid, update_installment i ''paid'' (IsoDate (toISODate (now e))) tbl,
        update_installment i ''paid'' (IsoTimestamp (now e)) rows)"
  by (simp add: markAsPaid_def update_installment_def)

lemma Day_bounds: "Day t * msPerDay \<le> t \<and> t < Day t * msPerDay + msPerDay"
proof -
  have "t div 86400000 * 86400000 \<le> t" by simp
  moreover have "t < t div 86400000 * 86400000 + 86400000"
  proof -
    have "t mod 86400000 < 86400000" by simp
    moreover have "t = t div 86400000 * 86400000 + t mod 86400000" by simp
    ultimately show ?thesis by linarith
  qed
  ultimately show ?thesis by (simp only: Day_def msPerDay_def)
qed

lemma due_before_today:
  assumes "days_from_civil dd < Day today"
  shows "Date_parse dd < today"
proof -
  have "days_from_civil dd * 86400000 \<le> (Day today - 1) * 86400000"
    using assms by simp
  with Day_bounds [of today] show ?thesis
    by (simp add: Date_parse_def msPerDay_def)
qed

lemma due_after_today:
  assumes "Day today < days_from_civil dd"
  shows "\<not> Date_parse dd < today"
proof -
  have "(Day today + 1) * 86400000 \<le> days_from_civil dd * 86400000"
    using assms by simp
  with Day_bounds [of today] show ?thesis
    by (simp add: Date_parse_def msPerDay_def)
qed

text \<open>
  On the day an installment is due the page compares midnight UTC of the due date
  with the current instant: a pending installment shows as overdue from the first
  millisecond of its due day.
\<close>

lemma due_today_shown_overdue:
  assumes "status r = Some ''pending''"
    and "days_from_civil (due_date r) = Day today"
    and "0 < TimeWithinDay today"
  shows "getStatusBadge (set_is_overdue today r) = Vencido"
proof -
  have "today = Day today * msPerDay + TimeWithinDay today"
    by (simp add: Day_def TimeWithinDay_def)
  with assms(2,3) have "Date_parse (due_date r) < today"
    by (simp add: Date_parse_def)
  with assms(1) show ?thesis
    by (simp add: getStatusBadge_def set_is_overdue_def)
qed

section \<open>The claims\<close>

text \<open>
  C1. For every cart and every discount \<open>d \<ge> 0\<close> the sale total is
  \<open>max(0, \<Sum> unitPrice \<times> quantity - d)\<close>, never negative. \<open>getTotal\<close> of \<open>PDV.tsx\<close>
  subtracts the discount with no floor: a cart of one shirt at 50 with a discount of 80
  has the total -30, where \<open>total\<close> of \<open>part_001\<close> gives 0.
\<close>

theorem getTotal_below_zero:
  "getTotal [line_pdv shirt 1] 80 = - 30 \<and>
   getTotal [line_pdv shirt 1] 80 \<noteq> max 0 (sale_price shirt * 1 - 80) \<and>
   total_p001 [line_p001 shirt 1] 80 = 0"
  by (simp add: getTotal_def total_p001_def subtotal_def isFinite_def)

text \<open>
  C3. Adding a product that already has a line in the cart, with existing quantity
  \<open>q1\<close> and additional quantity \<open>q2\<close> (\<open>addToCart\<close> of \<open>PDV.tsx\<close> always adds
  one): when \<open>q1 + q2\<close> does not exceed the product's stock, the cart keeps its lines
  in place, the one line of that product now has quantity \<open>q1 + q2\<close> and no other
  line changes; when it exceeds the stock, the operation reports insufficient stock
  and the cart is as it was.
\<close>

theorem add_existing_product:
  "(distinct (map (\<lambda>c. p_id (product_p001 c)) cart) \<and>
    find (\<lambda>c. p_id (product_p001 c) = p_id p) cart = Some existing \<and> 0 < q2 \<longrightarrow>
      (quantity_p001 existing + q2 \<le> stock_quantity p \<longrightarrow>
         fst (addProductToCart cart p q2) = Some Added \<and>
         map (\<lambda>c. p_id (product_p001 c)) (snd (addProductToCart cart p q2))
           = map (\<lambda>c. p_id (product_p001 c)) cart \<and>
         filter (\<lambda>c. p_id (product_p001 c) = p_id p) (snd (addProductToCart cart p q2))
           = [existing\<lparr>quantity_p001 := quantity_p001 existing + q2\<rparr>] \<and>
         filter (\<lambda>c. p_id (product_p001 c) \<noteq> p_id p) (snd (addProductToCart cart p q2))
           = filter (\<lambda>c. p_id (product_p001 c) \<noteq> p_id p) cart) \<and>
      (stock_quantity p < quantity_p001 existing + q2 \<longrightarrow>
         addProductToCart cart p q2 = (Some InsufficientStock, cart))) \<and>
   (distinct (map p_id cart1) \<and> find (\<lambda>item. p_id item = p_id p) cart1 = Some existing1 \<longrightarrow>
      (quantity_pdv existing1 + 1 \<le> stock_quantity p \<longrightarrow>
         fst (addToCart cart1 p) = Some Added \<and>
         map p_id (snd (addToCart cart1 p)) = map p_id cart1 \<and>
         filter (\<lambda>c. p_id c = p_id p) (snd (addToCart cart1 p))
           = [existing1\<lparr>quantity_pdv := quantity_pdv existing1 + 1\<rparr>] \<and>
         filter (\<lambda>c. p_id c \<noteq> p_id p) (snd (addToCart cart1 p))
           = filter (\<lambda>c. p_id c \<noteq> p_id p) cart1) \<and>
      (stock_quantity p < quantity_pdv existing1 + 1 \<longrightarrow>
         addToCart cart1 p = (Some InsufficientStock, cart1)))"
  using add_existing_p001 [of cart p existing q2] add_existing_pdv [of cart1 p existing1]
  by blast

theorem add_existing_product_witness:
  "distinct (map (\<lambda>c. p_id (product_p001 c)) [line_p001 shirt 2, line_p001 jeans 1]) \<and>
   find (\<lambda>c. p_id (product_p001 c) = p_id shirt) [line_p001 shirt 2, line_p001 jeans 1]
     = Some (line_p001 shirt 2) \<and>
   addProductToCart [line_p001 shirt 2, line_p001 jeans 1] shirt 3
     = (Some Added, [line_p001 shirt 5, line_p001 jeans 1]) \<and>
   addProductToCart [line_p001 shirt 2, line_p001 jeans 1] shirt 4
     = (Some InsufficientStock, [line_p001 shirt 2, line_p001 jeans 1]) \<and>
   distinct (map p_id [line_pdv shirt 4, line_pdv jeans 1]) \<and>
   addToCart [line_pdv shirt 4, line_pdv jeans 1] shirt
     = (Some Added, [line_pdv shirt 5, line_pdv jeans 1]) \<and>
   addToCart [line_pdv shirt 5, line_pdv jeans 1] shirt
     = (Some InsufficientStock, [line_pdv shirt 5, line_pdv jeans 1])"
  using add_existing_product [of "[line_p001 shirt 2, line_p001 jeans 1]" shirt "line_p001 shirt 2" 3
          "[line_pdv shirt 4, line_pdv jeans 1]" "line_pdv shirt 4"]
        add_existing_product [of "[line_p001 shirt 2, line_p001 jeans 1]" shirt "line_p001 shirt 2" 4
          "[line_pdv shirt 5, line_pdv jeans 1]" "line_pdv shirt 5"]
  by (simp add: addProductToCart_def addToCart_def)

text \<open>
  C4. Updating a quantity: a new quantity \<open>\<le> 0\<close> removes the line of that product
  and is no error; a positive new quantity above the product's known stock reports
  insufficient stock and leaves the cart as it was; otherwise the line's quantity is
  replaced in place and every other line is unchanged.
\<close>

theorem update_quantity_cases:
  "((newQty \<le> 0 \<longrightarrow>
      updateItemQty ps cart pid newQty = (None, filter (\<lambda>c. p_id (product_p001 c) \<noteq> pid) cart) \<and>
      pid \<notin> (\<lambda>c. p_id (product_p001 c)) ` set (snd (updateItemQty ps cart pid newQty))) \<and>
   (0 < newQty \<and> find (\<lambda>p. p_id p = pid) ps = Some pr \<and> stock_quantity pr < newQty \<longrightarrow>
      updateItemQty ps cart pid newQty = (Some InsufficientStock, cart)) \<and>
   (0 < newQty \<and> (find (\<lambda>p. p_id p = pid) ps = None \<or>
                   find (\<lambda>p. p_id p = pid) ps = Some pr \<and> newQty \<le> stock_quantity pr) \<longrightarrow>
      updateItemQty ps cart pid newQty =
        (None, map (\<lambda>c. if p_id (product_p001 c) = pid then c\<lparr>quantity_p001 := newQty\<rparr> else c) cart))) \<and>
   ((newQty \<le> 0 \<longrightarrow>
      updateQuantity ps cart1 pid newQty = (None, filter (\<lambda>c. p_id c \<noteq> pid) cart1) \<and>
      pid \<notin> p_id ` set (snd (updateQuantity ps cart1 pid newQty))) \<and>
   (0 < newQty \<and> find (\<lambda>p. p_id p = pid) ps = Some pr \<and> stock_quantity pr < newQty \<longrightarrow>
      updateQuantity ps cart1 pid newQty = (Some InsufficientStock, cart1)) \<and>
   (0 < newQty \<and> (find (\<lambda>p. p_id p = pid) ps = None \<or>
                   find (\<lambda>p. p_id p = pid) ps = Some pr \<and> newQty \<le> stock_quantity pr) \<longrightarrow>
      updateQuantity ps cart1 pid newQty =
        (None, map (\<lambda>c. if p_id c = pid then c\<lparr>quantity_pdv := newQty\<rparr> else c) cart1)))"
  using updateItemQty_cases [of newQty ps cart pid pr] updateQuantity_cases [of newQty ps cart1 pid pr]
  by blast

theorem update_quantity_cases_witness:
  "updateItemQty [shirt, jeans] [line_p001 shirt 2, line_p001 jeans 1] ''P1'' 0
     = (None, [line_p001 jeans 1]) \<and>
   updateItemQty [shirt, jeans] [line_p001 shirt 2, line_p001 jeans 1] ''P1'' 6
     = (Some InsufficientStock, [line_p001 shirt 2, line_p001 jeans 1]) \<and>
   updateItemQty [shirt, jeans] [line_p001 shirt 2, line_p001 jeans 1] ''P1'' 4
     = (None, [line_p001 shirt 4, line_p001 jeans 1]) \<and>
   updateQuantity [shirt, jeans] [line_pdv shirt 2, line_pdv jeans 1] ''P1'' 0
     = (None, [line_pdv jeans 1]) \<and>
   updateQuantity [shirt, jeans] [line_pdv shirt 2, line_pdv jeans 1] ''P1'' 6
     = (Some InsufficientStock, [line_pdv shirt 2, line_pdv jeans 1]) \<and>
   updateQuantity [shirt, jeans] [line_pdv shirt 2, line_pdv jeans 1] ''P1'' 4
     = (None, [line_pdv shirt 4, line_pdv jeans 1])"
  using update_quantity_cases [of 0 "[shirt, jeans]" "[line_p001 shirt 2, line_p001 jeans 1]" "''P1''"
          shirt "[line_pdv shirt 2, line_pdv jeans 1]"]
        update_quantity_cases [of 6 "[shirt, jeans]" "[line_p001 shirt 2, line_p001 jeans 1]" "''P1''"
          shirt "[line_pdv shirt 2, line_pdv jeans 1]"]
        update_quantity_cases [of 4 "[shirt, jeans]" "[line_p001 shirt 2, line_p001 jeans 1]" "''P1''"
          shirt "[line_pdv shirt 2, line_pdv jeans 1]"]
  by simp

text \<open>
  C5. Finishing a sale with an empty cart reports the empty cart, and finishing a
  sale with no signed-in user reports that the user is not authenticated (the cart is
  looked at first); in both cases no store call is made and the store is as it was.
\<close>

theorem finalizeSale_guards:
  "finalizeSale_p001 e [] user sc disc pm n d = (EmptyCart, d) \<and>
   finalizeSale_p001 e (c # cart) None sc disc pm n d = (Unauthenticated, d) \<and>
   finalizeSale_p001 e cart0 None sc disc pm n d
     = (if cart0 = [] then EmptyCart else Unauthenticated, d) \<and>
   finalizeSale_pdv e [] user sc disc pm n d = (EmptyCart, d) \<and>
   finalizeSale_pdv e (c1 # cart1) None sc disc pm n d = (Unauthenticated, d) \<and>
   finalizeSale_pdv e cart2 None sc disc pm n d
     = (if cart2 = [] then EmptyCart else Unauthenticated, d)"
  by (simp add: finalizeSale_p001_def finalizeSale_pdv_def)

text \<open>
  C6. The number of installments stored with a sale is the one chosen when the payment
  method is \<open>installment\<close> and 1 otherwise, whatever was chosen. Installment rows
  are written only when the payment method is \<open>installment\<close> and more than one
  installment was chosen, and a completed sale of that kind writes one row per
  installment; a sale in one installment writes none.
\<close>

theorem installments_of_sale:
  "((sales (snd (finalizeSale_p001 e cart user sc disc pm n d)) = sales d \<or>
     (\<exists>s. sales (snd (finalizeSale_p001 e cart user sc disc pm n d)) = sales d @ [s] \<and>
          sale_installments s = (if pm = ''installment'' then n else 1))) \<and>
    (fst (finalizeSale_p001 e cart user sc disc pm n d) = SaleCompleted \<longrightarrow>
       (\<exists>s. sales (snd (finalizeSale_p001 e cart user sc disc pm n d)) = sales d @ [s] \<and>
            sale_installments s = (if pm = ''installment'' then n else 1)) \<and>
       (\<exists>rows. installments_tbl (snd (finalizeSale_p001 e cart user sc disc pm n d))
                  = installments_tbl d @ rows \<and>
               length rows = (if pm = ''installment'' \<and> 1 < n then nat n else 0))) \<and>
    (\<not> (pm = ''installment'' \<and> 1 < n) \<longrightarrow>
       installments_tbl (snd (finalizeSale_p001 e cart user sc disc pm n d)) = installments_tbl d)) \<and>
   ((sales (snd (finalizeSale_pdv e cart1 user sc disc pm n d)) = sales d \<or>
     (\<exists>s. sales (snd (finalizeSale_pdv e cart1 user sc disc pm n d)) = sales d @ [s] \<and>
          sale_installments s = (if pm = ''installment'' then n else 1))) \<and>
    (fst (finalizeSale_pdv e cart1 user sc disc pm n d) = SaleCompleted \<longrightarrow>
       (\<exists>s. sales (snd (finalizeSale_pdv e cart1 user sc disc pm n d)) = sales d @ [s] \<and>
            sale_installments s = (if pm = ''installment'' then n else 1)) \<and>
       (\<exists>rows. installments_tbl (snd (finalizeSale_pdv e cart1 user sc disc pm n d))
                  = installments_tbl d @ rows \<and>
               length rows = (if pm = ''installment'' \<and> 1 < n then nat n else 0))) \<and>
    (\<not> (pm = ''installment'' \<and> 1 < n) \<longrightarrow>
       installments_tbl (snd (finalizeSale_pdv e cart1 user sc disc pm n d)) = installments_tbl d))"
  using finalizeSale_p001_sales [of e cart user sc disc pm n d]
        finalizeSale_pdv_sales [of e cart1 user sc disc pm n d]
        installments_of_sale_p001 [of e cart user sc disc pm n d]
        installments_of_sale_pdv [of e cart1 user sc disc pm n d]
        finalizeSale_p001_no_installments [of pm n e cart user sc disc d]
        finalizeSale_pdv_no_installments [of pm n e cart1 user sc disc d]
  by blast

theorem installments_of_sale_witness:
  "fst (finalizeSale_p001 store_ok [line_p001 shirt 2] (Some ''u1'') [] 0 ''installment'' 3 empty_db)
     = SaleCompleted \<and>
   map sale_installments (sales (snd (finalizeSale_p001 store_ok [line_p001 shirt 2] (Some ''u1'') []
     0 ''installment'' 3 empty_db))) = [3] \<and>
   length (installments_tbl (snd (finalizeSale_p001 store_ok [line_p001 shirt 2] (Some ''u1'') []
     0 ''installment'' 3 empty_db))) = 3 \<and>
   map sale_installments (sales (snd (finalizeSale_p001 store_ok [line_p001 shirt 2] (Some ''u1'') []
     0 ''cash'' 5 empty_db))) = [1] \<and>
   installments_tbl (snd (finalizeSale_p001 store_ok [line_p001 shirt 2] (Some ''u1'') []
     0 ''cash'' 5 empty_db)) = [] \<and>
   installments_tbl (snd (finalizeSale_p001 store_ok [line_p001 shirt 2] (Some ''u1'') []
     0 ''installment'' 1 empty_db)) = [] \<and>
   fst (finalizeSale_pdv store_ok [line_pdv shirt 2] (Some ''u1'') [] 0 ''installment'' 3 empty_db)
     = SaleCompleted \<and>
   map sale_installments (sales (snd (finalizeSale_pdv store_ok [line_pdv shirt 2] (Some ''u1'') []
     0 ''installment'' 3 empty_db))) = [3] \<and>
   length (installments_tbl (snd (finalizeSale_pdv store_ok [line_pdv shirt 2] (Some ''u1'') []
     0 ''installment'' 3 empty_db))) = 3 \<and>
   map sale_installments (sales (snd (finalizeSale_pdv store_ok [line_pdv shirt 2] (Some ''u1'') []
     0 ''cash'' 5 empty_db))) = [1] \<and>
   installments_tbl (snd (finalizeSale_pdv store_ok [line_pdv shirt 2] (Some ''u1'') []
     0 ''cash'' 5 empty_db)) = [] \<and>
   installments_tbl (snd (finalizeSale_pdv store_ok [line_pdv shirt 2] (Some ''u1'') []
     0 ''installment'' 1 empty_db)) = []"
proof -
  have c1: "fst (finalizeSale_p001 store_ok [line_p001 shirt 2] (Some ''u1'') [] 0 ''installment'' 3
              empty_db) = SaleCompleted"
    and c2: "fst (finalizeSale_pdv store_ok [line_pdv shirt 2] (Some ''u1'') [] 0 ''installment'' 3
              empty_db) = SaleCompleted"
    and c3: "fst (finalizeSale_p001 store_ok [line_p001 shirt 2] (Some ''u1'') [] 0 ''cash'' 5
              empty_db) = SaleCompleted"
    and c4: "fst (finalizeSale_pdv store_ok [line_pdv shirt 2] (Some ''u1'') [] 0 ''cash'' 5
              empty_db) = SaleCompleted"
    by (simp_all add: finalizeSale_p001_def finalizeSale_pdv_def Let_def update_stock_quantity_def)
  note t1 = installments_of_sale [of store_ok "[line_p001 shirt 2]" "Some ''u1''" "[]" 0
              "''installment''" 3 empty_db "[line_pdv shirt 2]"]
  note t2 = installments_of_sale [of store_ok "[line_p001 shirt 2]" "Some ''u1''" "[]" 0
              "''cash''" 5 empty_db "[line_pdv shirt 2]"]
  note t3 = installments_of_sale [of store_ok "[line_p001 shirt 2]" "Some ''u1''" "[]" 0
              "''installment''" 1 empty_db "[line_pdv shirt 2]"]
  from t1 c1 have a1:
    "map sale_installments (sales (snd (finalizeSale_p001 store_ok [line_p001 shirt 2] (Some ''u1'') []
       0 ''installment'' 3 empty_db))) = [3] \<and>
     length (installments_tbl (snd (finalizeSale_p001 store_ok [line_p001 shirt 2] (Some ''u1'') []
       0 ''installment'' 3 empty_db))) = 3"
    by auto
  from t1 c2 have a2:
    "map sale_installments (sales (snd (finalizeSale_pdv store_ok [line_pdv shirt 2] (Some ''u1'') []
       0 ''installment'' 3 empty_db))) = [3] \<and>
     length (installments_tbl (snd (finalizeSale_pdv store_ok [line_pdv shirt 2] (Some ''u1'') []
       0 ''installment'' 3 empty_db))) = 3"
    by auto
  from t2 c3 have a3:
    "map sale_installments (sales (snd (finalizeSale_p001 store_ok [line_p001 shirt 2] (Some ''u1'') []
       0 ''cash'' 5 empty_db))) = [1] \<and>
     installments_tbl (snd (finalizeSale_p001 store_ok [line_p001 shirt 2] (Some ''u1'') []
       0 ''cash'' 5 empty_db)) = []"
    by auto
  from t2 c4 have a4:
    "map sale_installments (sales (snd (finalizeSale_pdv store_ok [line_pdv shirt 2] (Some ''u1'') []
       0 ''cash'' 5 empty_db))) = [1] \<and>
     installments_tbl (snd (finalizeSale_pdv store_ok [line_pdv shirt 2] (Some ''u1'') []
       0 ''cash'' 5 empty_db)) = []"
    by auto
  from t3 have a5:
    "installments_tbl (snd (finalizeSale_p001 store_ok [line_p001 shirt 2] (Some ''u1'') []
       0 ''installment'' 1 empty_db)) = [] \<and>
     installments_tbl (snd (finalizeSale_pdv store_ok [line_pdv shirt 2] (Some ''u1'') []
       0 ''installment'' 1 empty_db)) = []"
    by simp
  from c1 c2 a1 a2 a3 a4 a5 show ?thesis by (simp only: simp_thms)
qed

text \<open>
  C7, as amended. After a completed sale of a cart with one line per product, the
  stored stock of every product sold (that has a row in the products table) is the
  stock recorded in the cart line, the snapshot taken when the products were loaded,
  minus the quantity sold. It is the stored stock before the sale minus the quantity
  sold whenever the snapshot still equals the stored stock, and it is not negative
  when the quantity does not exceed the snapshot.
\<close>

theorem stock_after_completed_sale:
  "(fst (finalizeSale_p001 e cart user sc disc pm n d) = SaleCompleted \<and>
    distinct (map (\<lambda>c. p_id (product_p001 c)) cart) \<and> c \<in> set cart \<and>
    stock_of d (p_id (product_p001 c)) = Some before \<longrightarrow>
      stock_of (snd (finalizeSale_p001 e cart user sc disc pm n d)) (p_id (product_p001 c))
        = Some (stock_quantity (product_p001 c) - quantity_p001 c) \<and>
      (stock_quantity (product_p001 c) = before \<longrightarrow>
         stock_of (snd (finalizeSale_p001 e cart user sc disc pm n d)) (p_id (product_p001 c))
           = Some (before - quantity_p001 c)) \<and>
      (quantity_p001 c \<le> stock_quantity (product_p001 c) \<longrightarrow>
         (\<exists>after. stock_of (snd (finalizeSale_p001 e cart user sc disc pm n d))
                    (p_id (product_p001 c)) = Some after \<and> 0 \<le> after))) \<and>
   (fst (finalizeSale_pdv e cart1 user sc disc pm n d) = SaleCompleted \<and>
    distinct (map p_id cart1) \<and> c1 \<in> set cart1 \<and> stock_of d (p_id c1) = Some before1 \<longrightarrow>
      stock_of (snd (finalizeSale_pdv e cart1 user sc disc pm n d)) (p_id c1)
        = Some (stock_quantity c1 - quantity_pdv c1) \<and>
      (stock_quantity c1 = before1 \<longrightarrow>
         stock_of (snd (finalizeSale_pdv e cart1 user sc disc pm n d)) (p_id c1)
           = Some (before1 - quantity_pdv c1)) \<and>
      (quantity_pdv c1 \<le> stock_quantity c1 \<longrightarrow>
         (\<exists>after. stock_of (snd (finalizeSale_pdv e cart1 user sc disc pm n d)) (p_id c1)
                    = Some after \<and> 0 \<le> after)))"
  using stock_after_sale_p001 [of e cart user sc disc pm n d c before]
        stock_after_sale_pdv [of e cart1 user sc disc pm n d c1 before1]
  by auto

theorem stock_after_completed_sale_witness:
  "fst (finalizeSale_p001 store_ok [line_p001 shirt 2, line_p001 jeans 1] (Some ''u1'') [] 0 ''cash'' 1
     empty_db) = SaleCompleted \<and>
   stock_of empty_db ''P1'' = Some 5 \<and>
   stock_of (snd (finalizeSale_p001 store_ok [line_p001 shirt 2, line_p001 jeans 1] (Some ''u1'') []
     0 ''cash'' 1 empty_db)) ''P1'' = Some 3 \<and>
   fst (finalizeSale_pdv store_ok [line_pdv shirt 2, line_pdv jeans 1] (Some ''u1'') [] 0 ''cash'' 1
     empty_db) = SaleCompleted \<and>
   stock_of (snd (finalizeSale_pdv store_ok [line_pdv shirt 2, line_pdv jeans 1] (Some ''u1'') []
     0 ''cash'' 1 empty_db)) ''P1'' = Some 3"
proof -
  have c1: "fst (finalizeSale_p001 store_ok [line_p001 shirt 2, line_p001 jeans 1] (Some ''u1'') []
              0 ''cash'' 1 empty_db) = SaleCompleted"
    and c2: "fst (finalizeSale_pdv store_ok [line_pdv shirt 2, line_pdv jeans 1] (Some ''u1'') []
              0 ''cash'' 1 empty_db) = SaleCompleted"
    by (simp_all add: finalizeSale_p001_def finalizeSale_pdv_def Let_def update_stock_quantity_def)
  have s: "stock_of empty_db ''P1'' = Some 5" by (simp add: stock_of_def)
  note t = stock_after_completed_sale [of store_ok "[line_p001 shirt 2, line_p001 jeans 1]"
             "Some ''u1''" "[]" 0 "''cash''" 1 empty_db "line_p001 shirt 2" 5
             "[line_pdv shirt 2, line_pdv jeans 1]" "line_pdv shirt 2" 5]
  show ?thesis using t c1 c2 s by simp
qed

text \<open>
  C7 as stated fails when the snapshot is out of date: the products table has 3
  shirts, the cart line was loaded when there were 5 and sells 2; the sale completes
  and the table still says 3, not 3 - 2.
\<close>

theorem stale_snapshot_counterexample:
  "fst (finalizeSale_p001 store_ok [line_p001 shirt 2] (Some ''u1'') [] 0 ''cash'' 1 stale_db)
     = SaleCompleted \<and>
   stock_of stale_db ''P1'' = Some 3 \<and>
   stock_of (snd (finalizeSale_p001 store_ok [line_p001 shirt 2] (Some ''u1'') [] 0 ''cash'' 1
     stale_db)) ''P1'' = Some 3 \<and>
   stock_of (snd (finalizeSale_p001 store_ok [line_p001 shirt 2] (Some ''u1'') [] 0 ''cash'' 1
     stale_db)) ''P1'' \<noteq> Some (3 - 2)"
  by (simp add: finalizeSale_p001_def Let_def update_stock_quantity_def stock_of_def)

text \<open>
  C8. When the store call succeeds, \<open>markAsPaid\<close> sets the status of the installment
  with the given id to paid and its payment date to the current date, in the table
  and in the rows of the page, and leaves every other installment as it was. Calling
  it again on the same id is no error: the installment is paid with the payment date
  of the second call, and at the same instant the second call changes nothing.
\<close>

theorem markAsPaid_sets_paid:
  "\<not> fails e UpdateInstallment \<and> \<not> fails e' UpdateInstallment \<longrightarrow>
     fst (markAsPaid e i (tbl, rows)) = MarkedPaid \<and>
     map inst_id (fst (snd (markAsPaid e i (tbl, rows)))) = map inst_id tbl \<and>
     (\<forall>r\<in>set (fst (snd (markAsPaid e i (tbl, rows)))).
        inst_id r = i \<longrightarrow>
          status r = Some ''paid'' \<and> payment_date r = Some (IsoDate (toISODate (now e)))) \<and>
     (\<forall>k<length tbl. inst_id (tbl ! k) \<noteq> i \<longrightarrow>
        fst (snd (markAsPaid e i (tbl, rows))) ! k = tbl ! k) \<and>
     (\<forall>r\<in>set (snd (snd (markAsPaid e i (tbl, rows)))). inst_id r = i \<longrightarrow> status r = Some ''paid'') \<and>
     fst (markAsPaid e' i (snd (markAsPaid e i (tbl, rows)))) = MarkedPaid \<and>
     (\<forall>r\<in>set (fst (snd (markAsPaid e' i (snd (markAsPaid e i (tbl, rows)))))).
        inst_id r = i \<longrightarrow>
          status r = Some ''paid'' \<and> payment_date r = Some (IsoDate (toISODate (now e')))) \<and>
     snd (markAsPaid e i (snd (markAsPaid e i (tbl, rows)))) = snd (markAsPaid e i (tbl, rows))"
proof (intro impI, elim conjE)
  assume ok: "\<not> fails e UpdateInstallment" and ok': "\<not> fails e' UpdateInstallment"
  note p = update_installment_props
  show "fst (markAsPaid e i (tbl, rows)) = MarkedPaid \<and>
     map inst_id (fst (snd (markAsPaid e i (tbl, rows)))) = map inst_id tbl \<and>
     (\<forall>r\<in>set (fst (snd (markAsPaid e i (tbl, rows)))).
        inst_id r = i \<longrightarrow>
          status r = Some ''paid'' \<and> payment_date r = Some (IsoDate (toISODate (now e)))) \<and>
     (\<forall>k<length tbl. inst_id (tbl ! k) \<noteq> i \<longrightarrow>
        fst (snd (markAsPaid e i (tbl, rows))) ! k = tbl ! k) \<and>
     (\<forall>r\<in>set (snd (snd (markAsPaid e i (tbl, rows)))). inst_id r = i \<longrightarrow> status r = Some ''paid'') \<and>
     fst (markAsPaid e' i (snd (markAsPaid e i (tbl, rows)))) = MarkedPaid \<and>
     (\<forall>r\<in>set (fst (snd (markAsPaid e' i (snd (markAsPaid e i (tbl, rows)))))).
        inst_id r = i \<longrightarrow>
          status r = Some ''paid'' \<and> payment_date r = Some (IsoDate (toISODate (now e')))) \<and>
     snd (markAsPaid e i (snd (markAsPaid e i (tbl, rows)))) = snd (markAsPaid e i (tbl, rows))"
    unfolding markAsPaid_ok [OF ok] markAsPaid_ok [OF ok'] fst_conv snd_conv update_installment_twice
    using p [of i "''paid''" "IsoDate (toISODate (now e))" tbl]
          p [of i "''paid''" "IsoTimestamp (now e)" rows]
          p [of i "''paid''" "IsoDate (toISODate (now e'))" tbl]
    by simp
qed

theorem markAsPaid_sets_paid_witness:
  "\<not> fails store_ok UpdateInstallment \<and>
   markAsPaid store_ok ''i1'' ([inst1, inst2], [row1]) =
     (MarkedPaid,
      [inst1\<lparr>status := Some ''paid'', payment_date := Some (IsoDate (2024, 1, 15))\<rparr>, inst2],
      [row1\<lparr>status := Some ''paid'', payment_date := Some (IsoTimestamp 1705320000000)\<rparr>]) \<and>
   markAsPaid store_ok ''i1'' (snd (markAsPaid store_ok ''i1'' ([inst1, inst2], [row1]))) =
     markAsPaid store_ok ''i1'' ([inst1, inst2], [row1])"
proof -
  have nf: "\<not> fails store_ok UpdateInstallment" by simp
  note t = markAsPaid_sets_paid [of store_ok store_ok "''i1''" "[inst1, inst2]" "[row1]"]
  from t nf have f1: "fst (markAsPaid store_ok ''i1'' ([inst1, inst2], [row1])) = MarkedPaid"
    by blast
  from t nf have f2: "fst (markAsPaid store_ok ''i1''
                        (snd (markAsPaid store_ok ''i1'' ([inst1, inst2], [row1])))) = MarkedPaid"
    by blast
  from t nf have idem: "snd (markAsPaid store_ok ''i1''
                          (snd (markAsPaid store_ok ''i1'' ([inst1, inst2], [row1]))))
                        = snd (markAsPaid store_ok ''i1'' ([inst1, inst2], [row1]))"
    by blast
  have d: "toISODate 1705320000000 = (2024, 1, 15)"
    by (rule toISODate_now)
  have ev: "markAsPaid store_ok ''i1'' ([inst1, inst2], [row1]) =
     (MarkedPaid,
      [inst1\<lparr>status := Some ''paid'', payment_date := Some (IsoDate (2024, 1, 15))\<rparr>, inst2],
      [row1\<lparr>status := Some ''paid'', payment_date := Some (IsoTimestamp 1705320000000)\<rparr>])"
    by (simp add: markAsPaid_def update_installment_def d)
  have again: "markAsPaid store_ok ''i1'' (snd (markAsPaid store_ok ''i1'' ([inst1, inst2], [row1])))
               = markAsPaid store_ok ''i1'' ([inst1, inst2], [row1])"
    using f1 f2 idem by (simp only: prod_eq_iff simp_thms)
  from nf ev again show ?thesis by (intro conjI)
qed

text \<open>
  C9, as amended. The status shown for an installment is computed from the
  installment and the current time, today being the calendar date of that time in
  UTC (the zone in which the sale writes the due dates): paid when the stored status
  is paid, whatever the due date; otherwise overdue when the stored status is pending
  and the due date is before today; pending when the stored status is pending and the
  due date is after today, and when the stored status is neither paid nor pending.
  Nothing is stated of a pending installment on the day it is due. Computing the
  status changes no column of the installment: it only stores the overdue flag in the
  \<open>is_overdue\<close> field of the page's row. An installment that was due yesterday and
  is pending shows as overdue, and after \<open>markAsPaid\<close> as paid.
\<close>

theorem derived_status:
  "(status r = Some ''paid'' \<longrightarrow> getStatusBadge (set_is_overdue today r) = Pago) \<and>
   (status r = Some ''pending'' \<and> days_from_civil (due_date r) < Day today \<longrightarrow>
      getStatusBadge (set_is_overdue today r) = Vencido) \<and>
   (status r = Some ''pending'' \<and> Day today < days_from_civil (due_date r) \<longrightarrow>
      getStatusBadge (set_is_overdue today r) = Pendente) \<and>
   (status r \<noteq> Some ''paid'' \<and> status r \<noteq> Some ''pending'' \<longrightarrow>
      getStatusBadge (set_is_overdue today r) = Pendente) \<and>
   inst_id (set_is_overdue today r) = inst_id r \<and>
   inst_sale_id (set_is_overdue today r) = inst_sale_id r \<and>
   installment_number (set_is_overdue today r) = installment_number r \<and>
   amount (set_is_overdue today r) = amount r \<and>
   due_date (set_is_overdue today r) = due_date r \<and>
   payment_date (set_is_overdue today r) = payment_date r \<and>
   status (set_is_overdue today r) = status r \<and>
   snd (filtered today queryMatch sel rows) = map (set_is_overdue today) rows \<and>
   (\<not> fails e UpdateInstallment \<longrightarrow>
      (\<forall>r'\<in>set (snd (snd (markAsPaid e i (tbl, rows)))).
         inst_id r' = i \<longrightarrow> getStatusBadge (set_is_overdue today' r') = Pago))"
proof -
  have a: "getStatusBadge (set_is_overdue today r) =
     (if status r = Some ''paid'' then Pago
      else if status r = Some ''pending'' \<and> Date_parse (due_date r) < today then Vencido
      else Pendente)"
    by (simp add: getStatusBadge_def set_is_overdue_def)
  have p: "status r = Some ''paid'' \<longrightarrow> getStatusBadge (set_is_overdue today r) = Pago"
    by (simp add: a)
  have b: "status r = Some ''pending'' \<and> days_from_civil (due_date r) < Day today \<longrightarrow>
      getStatusBadge (set_is_overdue today r) = Vencido"
    using due_before_today [of "due_date r" today] by (simp add: a)
  have b': "status r = Some ''pending'' \<and> Day today < days_from_civil (due_date r) \<longrightarrow>
      getStatusBadge (set_is_overdue today r) = Pendente"
    using due_after_today [of today "due_date r"] by (simp add: a)
  have o: "status r \<noteq> Some ''paid'' \<and> status r \<noteq> Some ''pending'' \<longrightarrow>
      getStatusBadge (set_is_overdue today r) = Pendente"
    by (simp add: a)
  have c: "\<not> fails e UpdateInstallment \<longrightarrow>
      (\<forall>r'\<in>set (snd (snd (markAsPaid e i (tbl, rows)))).
         inst_id r' = i \<longrightarrow> getStatusBadge (set_is_overdue today' r') = Pago)"
    using update_installment_props [of i "''paid''" "IsoTimestamp (now e)" rows]
    by (auto simp: markAsPaid_ok getStatusBadge_def set_is_overdue_def)
  have f: "snd (filtered today queryMatch sel rows) = map (set_is_overdue today) rows"
    by (simp add: filtered_def Let_def)
  have k: "inst_id (set_is_overdue today r) = inst_id r \<and>
     inst_sale_id (set_is_overdue today r) = inst_sale_id r \<and>
     installment_number (set_is_overdue today r) = installment_number r \<and>
     amount (set_is_overdue today r) = amount r \<and>
     due_date (set_is_overdue today r) = due_date r \<and>
     payment_date (set_is_overdue today r) = payment_date r \<and>
     status (set_is_overdue today r) = status r"
    by (simp add: set_is_overdue_def)
  from p b b' o k f c show ?thesis by (simp only: simp_thms)
qed

theorem derived_status_witness:
  "days_from_civil (due_date row1) < Day 1705320000000 \<and>
   getStatusBadge (set_is_overdue 1705320000000 row1) = Vencido \<and>
   Day 1705320000000 < days_from_civil (2024, 2, 14) \<and>
   getStatusBadge (set_is_overdue 1705320000000 (row1\<lparr>due_date := (2024, 2, 14)\<rparr>)) = Pendente \<and>
   getStatusBadge (set_is_overdue 1705320000000 (row1\<lparr>status := Some ''overdue''\<rparr>)) = Pendente \<and>
   snd (snd (markAsPaid store_ok ''i1'' ([inst1], [row1]))) =
     [row1\<lparr>status := Some ''paid'', payment_date := Some (IsoTimestamp 1705320000000)\<rparr>] \<and>
   getStatusBadge (set_is_overdue 1705320000000
     (row1\<lparr>status := Some ''paid'', payment_date := Some (IsoTimestamp 1705320000000)\<rparr>)) = Pago"
proof -
  have d: "days_from_civil (due_date row1) < Day 1705320000000"
    by (simp add: days_from_civil_def Day_def msPerDay_def Let_def)
  have d': "Day 1705320000000 < days_from_civil (2024, 2, 14)"
    by (simp add: days_from_civil_def Day_def msPerDay_def Let_def)
  have nf: "\<not> fails store_ok UpdateInstallment" by simp
  have m: "snd (snd (markAsPaid store_ok ''i1'' ([inst1], [row1]))) =
     [row1\<lparr>status := Some ''paid'', payment_date := Some (IsoTimestamp 1705320000000)\<rparr>]"
    by (simp add: markAsPaid_def)
  note t = derived_status [of row1 1705320000000 "\<lambda>_. True" "''all''" "[row1]" store_ok "''i1''"
             "[inst1]" 1705320000000]
  have s: "status row1 = Some ''pending''" by simp
  from t s d have a: "getStatusBadge (set_is_overdue 1705320000000 row1) = Vencido"
    by blast
  have s2: "status (row1\<lparr>due_date := (2024, 2, 14)\<rparr>) = Some ''pending''" by simp
  have d2: "Day 1705320000000 < days_from_civil (due_date (row1\<lparr>due_date := (2024, 2, 14)\<rparr>))"
    using d' by simp
  from derived_status [of "row1\<lparr>due_date := (2024, 2, 14)\<rparr>" 1705320000000 "\<lambda>_. True" "''all''"
         "[row1]" store_ok "''i1''" "[inst1]" 1705320000000] s2 d2
  have a2: "getStatusBadge (set_is_overdue 1705320000000 (row1\<lparr>due_date := (2024, 2, 14)\<rparr>))
              = Pendente"
    by blast
  have s3: "status (row1\<lparr>status := Some ''overdue''\<rparr>) \<noteq> Some ''paid'' \<and>
            status (row1\<lparr>status := Some ''overdue''\<rparr>) \<noteq> Some ''pending''" by simp
  from derived_status [of "row1\<lparr>status := Some ''overdue''\<rparr>" 1705320000000 "\<lambda>_. True" "''all''"
         "[row1]" store_ok "''i1''" "[inst1]" 1705320000000] s3
  have a3: "getStatusBadge (set_is_overdue 1705320000000 (row1\<lparr>status := Some ''overdue''\<rparr>)) = Pendente"
    by blast
  from t nf have "\<forall>r'\<in>set (snd (snd (markAsPaid store_ok ''i1'' ([inst1], [row1])))).
         inst_id r' = ''i1'' \<longrightarrow> getStatusBadge (set_is_overdue 1705320000000 r') = Pago"
    by blast
  then have b: "getStatusBadge (set_is_overdue 1705320000000
     (row1\<lparr>status := Some ''paid'', payment_date := Some (IsoTimestamp 1705320000000)\<rparr>)) = Pago"
    unfolding m by simp
  from d a d' a2 a3 m b show ?thesis by (intro conjI)
qed

text \<open>
  C9 as stated fails in that the computation does change something: the callback of
  \<open>filtered\<close> writes the flag into the row it is given, so the rows of the page are
  not what they were.
\<close>

theorem is_overdue_written_counterexample:
  "is_overdue row1 = None \<and>
   snd (filtered 1705320000000 (\<lambda>r. True) ''all'' [row1]) = [row1\<lparr>is_overdue := Some True\<rparr>] \<and>
   snd (filtered 1705320000000 (\<lambda>r. True) ''all'' [row1]) \<noteq> [row1]"
  by (simp add: filtered_def set_is_overdue_def Date_parse_def days_from_civil_def msPerDay_def
        Let_def)

text \<open>
  C10. Updating the quantity of a product that has no line in the cart, to a positive
  quantity within the product's known stock, returns the cart unchanged: no error is
  reported and no line is created.
\<close>

theorem update_quantity_absent_line:
  "((\<forall>c\<in>set cart. p_id (product_p001 c) \<noteq> pid) \<and> 0 < n \<and>
    find (\<lambda>p. p_id p = pid) ps = Some pr \<and> n \<le> stock_quantity pr \<longrightarrow>
      updateItemQty ps cart pid n = (None, cart)) \<and>
   ((\<forall>c\<in>set cart1. p_id c \<noteq> pid) \<and> 0 < n \<and>
    find (\<lambda>p. p_id p = pid) ps = Some pr \<and> n \<le> stock_quantity pr \<longrightarrow>
      updateQuantity ps cart1 pid n = (None, cart1))"
  using updateItemQty_absent [of cart pid n ps pr] updateQuantity_absent [of cart1 pid n ps pr]
  by blast

theorem update_quantity_absent_line_witness:
  "find (\<lambda>p. p_id p = ''P1'') [shirt, jeans] = Some shirt \<and>
   updateItemQty [shirt, jeans] [line_p001 jeans 1] ''P1'' 3 = (None, [line_p001 jeans 1]) \<and>
   updateQuantity [shirt, jeans] [line_pdv jeans 1] ''P1'' 3 = (None, [line_pdv jeans 1])"
  using update_quantity_absent_line [of "[line_p001 jeans 1]" "''P1''" 3 "[shirt, jeans]" shirt
          "[line_pdv jeans 1]"]
  by simp

end
